theory Spec2Isabelle
  imports Complex_Main "HOL-Library.Word"
begin

unbundle bit_operations_syntax

section \<open>Game data model (models/game\_data.py)\<close>

text \<open>
  The validated objects of \<^verbatim>\<open>models/game_data.py\<close>, one record per pydantic class.
  Field names carry the class as a prefix where several classes use the same name
  (\<^verbatim>\<open>id\<close>, \<^verbatim>\<open>name\<close>, \<^verbatim>\<open>title\<close>, \<^verbatim>\<open>hp\<close>, \<^verbatim>\<open>speed\<close>, \<^verbatim>\<open>sprite_prompt\<close>, \<^verbatim>\<open>patterns\<close>).
  Python \<^verbatim>\<open>int\<close> is \<^typ>\<open>int\<close>, \<^verbatim>\<open>str\<close> is \<^typ>\<open>string\<close>, \<^verbatim>\<open>Optional[T]\<close> is \<^typ>\<open>'a option\<close>.
  A \<^verbatim>\<open>float\<close> field is a rational: the bounds of the schema are compared exactly.
\<close>

type_synonym pyfloat = rat

record Palette =
  ansi_fg :: string
  ansi_bg :: string
  accent :: string

record Story =
  os_name :: string
  tagline :: string
  palette :: Palette

record ParallaxLayer =
  layer_id :: string
  layer_prompt :: string
  depth :: pyfloat

record Wave =
  wave_time :: int
  formation :: string
  enemy_type :: string
  wave_count :: int
  path :: string

record BossPhase =
  phase_hp :: int
  phase_patterns :: "string list"

record Boss =
  boss_id :: string
  boss_title :: string
  boss_sprite_prompt :: "string option"
  phases :: "BossPhase list"

record Stage =
  stage_id :: string
  stage_title :: string
  scroll_speed :: pyfloat
  length_sec :: int
  parallax :: "ParallaxLayer list"
  waves :: "Wave list"
  boss :: Boss

record Enemy =
  enemy_id :: string
  enemy_name :: string
  enemy_hp :: int
  enemy_speed :: pyfloat
  radius :: int
  enemy_sprite_prompt :: string
  score :: "int option"

record BulletPattern =
  pattern_id :: string
  pattern_type :: string
  bullets :: "int option"
  spread_deg :: "pyfloat option"
  arc_deg :: "pyfloat option"
  cooldown_ms :: int
  pattern_speed :: "pyfloat option"
  rate :: "pyfloat option"
  dual :: "bool option"

record Weapon =
  weapon_id :: string
  weapon_name :: "string option"
  dps :: pyfloat
  projectile_speed :: pyfloat
  spread :: pyfloat
  fire_rate :: pyfloat

record Pickup =
  pickup_id :: string
  pickup_name :: "string option"
  effect :: string
  pickup_sprite_prompt :: "string option"

record CRTEffects =
  scanlines :: bool
  glow :: pyfloat
  vignette :: pyfloat
  flicker :: "pyfloat option"

record Player =
  player_sprite_prompt :: string

record TUISkin =
  frame_prompt :: string
  glyph_bullets :: bool
  glyph_set :: "string list"
  crt_effects :: CRTEffects
  boot_sequence :: "string list option"

record GameData =
  game_id :: string
  story :: Story
  player :: Player
  stages :: "Stage list"
  enemies :: "Enemy list"
  bullet_patterns :: "BulletPattern list option"
  weapons :: "Weapon list"
  pickups :: "Pickup list"
  tui_skin :: "TUISkin option"
  metadata :: "(string \<times> string) list option"


section \<open>Summary of a validated game (utils/validation.py)\<close>

text \<open>Python's \<^verbatim>\<open>sum(iterable)\<close>: a left fold of \<^verbatim>\<open>+\<close> from 0.\<close>

definition py_sum :: "nat list \<Rightarrow> nat" where
  "py_sum xs = foldl (+) 0 xs"

record Summary =
  sum_game_id :: string
  sum_os_name :: string
  stage_count :: nat
  enemy_count :: nat
  pattern_count :: nat
  weapon_count :: nat
  pickup_count :: nat
  total_waves :: nat
  total_boss_phases :: nat
  sum_glyph_bullets :: bool

text \<open>
  \<^verbatim>\<open>get_validation_summary\<close>. The conditional \<^verbatim>\<open>len(bp) if bp else 0\<close> tests the truth
  value of \<^verbatim>\<open>bp\<close>: \<^verbatim>\<open>None\<close> and the empty list are both false. A pydantic object
  (\<^verbatim>\<open>tui_skin\<close>) is true whenever it is not \<^verbatim>\<open>None\<close>.
\<close>

definition get_validation_summary :: "GameData \<Rightarrow> Summary" where
  "get_validation_summary game_data =
    \<lparr> sum_game_id = game_id game_data,
      sum_os_name = os_name (story game_data),
      stage_count = length (stages game_data),
      enemy_count = length (enemies game_data),
      pattern_count =
        (case bullet_patterns game_data of
           None \<Rightarrow> 0
         | Some ps \<Rightarrow> if ps \<noteq> [] then length ps else 0),
      weapon_count = length (weapons game_data),
      pickup_count = length (pickups game_data),
      total_waves = py_sum (map (\<lambda>stage. length (waves stage)) (stages game_data)),
      total_boss_phases =
        py_sum (map (\<lambda>stage. length (phases (boss stage))) (stages game_data)),
      sum_glyph_bullets =
        (case tui_skin game_data of None \<Rightarrow> False | Some skin \<Rightarrow> glyph_bullets skin) \<rparr>"


section \<open>Python helpers\<close>

text \<open>
  A Python \<^verbatim>\<open>str\<close> is represented by the bytes of its UTF-8 encoding (so that
  \<^verbatim>\<open>s.encode()\<close> is the string itself). \<^verbatim>\<open>len(s)\<close> counts characters, not bytes: every
  character is encoded as one leading byte followed by continuation bytes
  (\<^verbatim>\<open>0x80\<close> to \<^verbatim>\<open>0xBF\<close>), so the length is the number of bytes that are not continuation
  bytes.
\<close>

definition utf8_continuation :: "char \<Rightarrow> bool" where
  "utf8_continuation c = (128 \<le> (of_char c :: nat) \<and> (of_char c :: nat) < 192)"

definition py_len :: "string \<Rightarrow> nat" where
  "py_len s = length (filter (\<lambda>c. \<not> utf8_continuation c) s)"

text \<open>
  The truth value of an optional string (\<^verbatim>\<open>if image:\<close>): \<^verbatim>\<open>None\<close> and the empty string
  are false. \<^verbatim>\<open>str(x)\<close> of an optional string inside an f-string prints \<^verbatim>\<open>None\<close> as
  the text \<^verbatim>\<open>None\<close>.
\<close>

fun truthy :: "string option \<Rightarrow> bool" where
  "truthy None = False"
| "truthy (Some s) = (s \<noteq> [])"

fun py_str :: "string option \<Rightarrow> string" where
  "py_str None = ''None''"
| "py_str (Some s) = s"

text \<open>\<^verbatim>\<open>s.startswith(p)\<close> and the substring test \<^verbatim>\<open>p in s\<close>.\<close>

fun startswith :: "string \<Rightarrow> string \<Rightarrow> bool" where
  "startswith s [] = True"
| "startswith [] (p # ps) = False"
| "startswith (c # cs) (p # ps) = (c = p \<and> startswith cs ps)"

fun py_in :: "string \<Rightarrow> string \<Rightarrow> bool" where
  "py_in p [] = (p = [])"
| "py_in p (c # cs) = (startswith (c # cs) p \<or> py_in p cs)"

text \<open>
  \<^verbatim>\<open>s.split(',', 1)[1]\<close>: the text after the first comma; an \<^verbatim>\<open>IndexError\<close> (here
  \<^const>\<open>None\<close>) when \<^verbatim>\<open>s\<close> has no comma.
\<close>

definition split_comma_1 :: "string \<Rightarrow> string option" where
  "split_comma_1 s =
    (case dropWhile (\<lambda>c. c \<noteq> CHR '','') s of [] \<Rightarrow> None | c # rest \<Rightarrow> Some rest)"


section \<open>Image generation service (services/image\_service.py)\<close>

text \<open>
  The library functions the service calls are parameters of the model: the SHA-256
  digest of a string (\<^verbatim>\<open>hashlib.sha256(s.encode())\<close>, 256 bits), \<^verbatim>\<open>base64.b64encode\<close> and
  \<^verbatim>\<open>base64.b64decode\<close> (which raises on malformed input: \<^const>\<open>None\<close>).
\<close>

record pylib =
  sha256 :: "string \<Rightarrow> 256 word"
  b64encode :: "string \<Rightarrow> string"
  b64decode :: "string \<Rightarrow> string option"

text \<open>
  Lower-case hexadecimal with a fixed number of digits, most significant digit first
  (\<^verbatim>\<open>'%032x' % n\<close>); \<^verbatim>\<open>hexdigest()\<close> is the 64 digits of the digest.
\<close>

definition hex_digit :: "nat \<Rightarrow> char" where
  "hex_digit n = ''0123456789abcdef'' ! n"

definition hex_of_word :: "nat \<Rightarrow> 'a::len word \<Rightarrow> string" where
  "hex_of_word n w = map (\<lambda>i. hex_digit (unat (drop_bit (4 * i) w AND 15))) (rev [0..<n])"

definition hexdigest :: "256 word \<Rightarrow> string" where
  "hexdigest w = hex_of_word 64 w"

text \<open>
  The two cache tiers: the module-level dictionary \<^verbatim>\<open>IMAGE_CACHE\<close> and the files
  \<^verbatim>\<open>CACHE_DIR / image_type / (cache_key + ".png")\<close>, a map from the image type and the key
  to the bytes of the file.
\<close>

record cache_state =
  IMAGE_CACHE :: "string \<rightharpoonup> string"
  cache_files :: "string \<times> string \<rightharpoonup> string"

text \<open>The triple \<^verbatim>\<open>(success, base64_image, error_message)\<close> every generator returns.\<close>

type_synonym gen_result = "bool \<times> string option \<times> string option"

definition get_cache_key :: "pylib \<Rightarrow> string \<Rightarrow> string \<Rightarrow> string \<Rightarrow> string" where
  "get_cache_key lib prompt img_size model =
    hexdigest (sha256 lib (prompt @ ''|'' @ img_size @ ''|'' @ model))"

definition png_prefix :: string where
  "png_prefix = ''data:image/png;base64,''"

text \<open>
  \<^verbatim>\<open>save_image_to_cache\<close>: any exception (a payload that does not decode) leaves the
  files as they were. The returned path is not used by \<^verbatim>\<open>generate_image\<close>; the model
  returns the new state.
\<close>

definition save_image_to_cache ::
  "pylib \<Rightarrow> string \<Rightarrow> string \<Rightarrow> string \<Rightarrow> cache_state \<Rightarrow> cache_state" where
  "save_image_to_cache lib cache_key base64_data image_type st =
    (let base64_content =
           (if startswith base64_data png_prefix then split_comma_1 base64_data
            else Some base64_data)
     in case base64_content of
          None \<Rightarrow> st
        | Some content \<Rightarrow>
            (case b64decode lib content of
               None \<Rightarrow> st
             | Some image_bytes \<Rightarrow>
                 st\<lparr>cache_files := (cache_files st)((image_type, cache_key) \<mapsto> image_bytes)\<rparr>))"

definition load_image_from_cache ::
  "pylib \<Rightarrow> string \<Rightarrow> string \<Rightarrow> cache_state \<Rightarrow> string option" where
  "load_image_from_cache lib cache_key image_type st =
    (case cache_files st (image_type, cache_key) of
       None \<Rightarrow> None
     | Some image_bytes \<Rightarrow> Some (png_prefix @ b64encode lib image_bytes))"

text \<open>
  \<^verbatim>\<open>generate_image\<close>. The two providers (\<^verbatim>\<open>generate_image_gemini\<close>,
  \<^verbatim>\<open>generate_image_openai\<close>) talk to remote services: each is a parameter giving the
  triple the call returns for a prompt and a size (\<^verbatim>\<open>img_size\<close> below, the parameter
  \<^verbatim>\<open>size\<close> of the source). The result is the returned triple and
  the state of the two cache tiers after the call.
\<close>

definition cache_result ::
  "pylib \<Rightarrow> bool \<Rightarrow> string option \<Rightarrow> string \<Rightarrow> string \<Rightarrow> cache_state \<Rightarrow> cache_state" where
  "cache_result lib use_cache cache_key img image_type st =
    (if use_cache \<and> truthy cache_key then
       save_image_to_cache lib (the cache_key) img image_type
         (st\<lparr>IMAGE_CACHE := (IMAGE_CACHE st)(the cache_key \<mapsto> img)\<rparr>)
     else st)"

definition generate_uncached ::
  "pylib \<Rightarrow> (string \<Rightarrow> string \<Rightarrow> gen_result) \<Rightarrow> (string \<Rightarrow> string \<Rightarrow> gen_result) \<Rightarrow>
   string \<Rightarrow> string \<Rightarrow> bool \<Rightarrow> string option \<Rightarrow> string \<Rightarrow> cache_state \<Rightarrow> gen_result \<times> cache_state" where
  "generate_uncached lib gemini openai prompt img_size use_cache cache_key image_type st =
    (case gemini prompt img_size of (success, img, error) \<Rightarrow>
       if success \<and> truthy img then
         ((True, img, None), cache_result lib use_cache cache_key (the img) image_type st)
       else
         (case openai prompt img_size of (success, img, error) \<Rightarrow>
            if success \<and> truthy img then
              ((True, img, None), cache_result lib use_cache cache_key (the img) image_type st)
            else
              ((False, None,
                Some (''Both Gemini and OpenAI failed. Last error: '' @ py_str error)), st)))"

definition generate_image ::
  "pylib \<Rightarrow> (string \<Rightarrow> string \<Rightarrow> gen_result) \<Rightarrow> (string \<Rightarrow> string \<Rightarrow> gen_result) \<Rightarrow>
   string \<Rightarrow> string \<Rightarrow> bool \<Rightarrow> string \<Rightarrow> cache_state \<Rightarrow> gen_result \<times> cache_state" where
  "generate_image lib gemini openai prompt img_size use_cache image_type st =
    (let cache_key = (if use_cache then Some (get_cache_key lib prompt img_size image_type) else None)
     in if use_cache \<and> truthy cache_key then
          (let cached_image = load_image_from_cache lib (the cache_key) image_type st
           in if truthy cached_image then
                ((True, cached_image, None),
                 st\<lparr>IMAGE_CACHE := (IMAGE_CACHE st)(the cache_key \<mapsto> the cached_image)\<rparr>)
              else if the cache_key \<in> dom (IMAGE_CACHE st) then
                ((True, IMAGE_CACHE st (the cache_key), None), st)
              else
                generate_uncached lib gemini openai prompt img_size use_cache cache_key image_type st)
        else generate_uncached lib gemini openai prompt img_size use_cache cache_key image_type st)"


text \<open>
  A lookup reaches neither provider exactly when the cache is in use and one of the two
  tiers holds the key.
\<close>

definition cache_hit ::
  "pylib \<Rightarrow> string \<Rightarrow> string \<Rightarrow> bool \<Rightarrow> string \<Rightarrow> cache_state \<Rightarrow> bool" where
  "cache_hit lib prompt img_size use_cache image_type st =
    (use_cache \<and>
      (cache_files st (image_type, get_cache_key lib prompt img_size image_type) \<noteq> None \<or>
       IMAGE_CACHE st (get_cache_key lib prompt img_size image_type) \<noteq> None))"

text \<open>
  Concrete inputs for the examples: a library whose digest is the length of the string
  and whose base64 functions are the identity, and a provider that fails with a given
  reason.
\<close>

definition demo_lib :: pylib where
  "demo_lib = \<lparr> sha256 = (\<lambda>s. word_of_nat (length s)), b64encode = (\<lambda>b. b), b64decode = Some \<rparr>"

definition always_fails :: "string \<Rightarrow> string \<Rightarrow> string \<Rightarrow> gen_result" where
  "always_fails reason prompt img_size = (False, None, Some reason)"


section \<open>Text generation service (services/llm\_service.py)\<close>

text \<open>
  \<^verbatim>\<open>get_llm_cache_key\<close>: the digest of the f-string \<^verbatim>\<open>f"{PROMPT_VERSION}:{user_prompt}"\<close>. The
  argument \<^verbatim>\<open>difficulty\<close> (default \<^verbatim>\<open>None\<close>) is not read.
\<close>

definition PROMPT_VERSION :: string where
  "PROMPT_VERSION = ''v4''"

definition llm_key_str :: "string \<Rightarrow> string \<Rightarrow> string" where
  "llm_key_str version user_prompt = version @ '':'' @ user_prompt"

definition get_llm_cache_key :: "pylib \<Rightarrow> string \<Rightarrow> string option \<Rightarrow> string" where
  "get_llm_cache_key lib user_prompt difficulty =
    hexdigest (sha256 lib (llm_key_str PROMPT_VERSION user_prompt))"

text \<open>
  For the statements about the key: the digest does not collide on two given strings.
\<close>

definition no_collision :: "pylib \<Rightarrow> string \<Rightarrow> string \<Rightarrow> bool" where
  "no_collision lib x y = (sha256 lib x = sha256 lib y \<longrightarrow> x = y)"

text \<open>A parsed JSON document (what \<^verbatim>\<open>json.loads\<close> returns) and its truth value.\<close>

datatype json =
    JNull
  | JBool bool
  | JInt int
  | JFloat rat
  | JStr string
  | JArr "json list"
  | JObj "(string \<times> json) list"

fun py_bool :: "json \<Rightarrow> bool" where
  "py_bool JNull = False"
| "py_bool (JBool b) = b"
| "py_bool (JInt i) = (i \<noteq> 0)"
| "py_bool (JFloat x) = (x \<noteq> 0)"
| "py_bool (JStr s) = (s \<noteq> [])"
| "py_bool (JArr xs) = (xs \<noteq> [])"
| "py_bool (JObj kvs) = (kvs \<noteq> [])"

text \<open>
  What the body of the \<^verbatim>\<open>try\<close> does at one attempt: the call of \<^verbatim>\<open>completion\<close> and
  \<^verbatim>\<open>json.loads\<close> give a document, or \<^verbatim>\<open>json.loads\<close> raises \<^verbatim>\<open>JSONDecodeError\<close> (with its
  text \<^verbatim>\<open>str(e)\<close>), or anything else raises (with \<^verbatim>\<open>type(e).__name__\<close> and \<^verbatim>\<open>str(e)\<close>).
\<close>

datatype attempt_outcome =
    Parsed json
  | JSONDecodeError string
  | OtherException string string

text \<open>
  The observable effects: the calls of \<^verbatim>\<open>completion\<close> (with the number of the attempt) and
  of \<^verbatim>\<open>time.sleep\<close> (with the seconds), in the order they happen, and the cache files
  \<^verbatim>\<open>CACHE_DIR / (cache_key + ".json")\<close>.
\<close>

datatype event = Completion nat | Sleep nat

record llm_state =
  events :: "event list"
  llm_files :: "string \<rightharpoonup> json"

type_synonym llm_result = "bool \<times> json option \<times> string option"

definition emit :: "event \<Rightarrow> llm_state \<Rightarrow> llm_state" where
  "emit e st = st\<lparr>events := events st @ [e]\<rparr>"

definition load_from_llm_cache :: "string \<Rightarrow> llm_state \<Rightarrow> json option" where
  "load_from_llm_cache cache_key st = llm_files st cache_key"

definition save_to_llm_cache :: "string \<Rightarrow> json \<Rightarrow> llm_state \<Rightarrow> llm_state" where
  "save_to_llm_cache cache_key game_data st =
    st\<lparr>llm_files := (llm_files st)(cache_key \<mapsto> game_data)\<rparr>"

text \<open>
  The loop \<^verbatim>\<open>for attempt in range(max_retries)\<close>, by recursion on the attempts still to
  make; the statement after the loop is the case of the empty list.
\<close>

definition py_range :: "int \<Rightarrow> nat list" where
  "py_range n = [0..<nat n]"

fun retry_loop ::
  "(nat \<Rightarrow> attempt_outcome) \<Rightarrow> int \<Rightarrow> bool \<Rightarrow> string option \<Rightarrow> nat list \<Rightarrow> llm_state
   \<Rightarrow> llm_result \<times> llm_state" where
  "retry_loop body max_retries use_cache cache_key [] st =
     ((False, None, Some ''Max retries exceeded''), st)"
| "retry_loop body max_retries use_cache cache_key (attempt # rest) st =
     (let st1 = emit (Completion attempt) st in
      case body attempt of
        Parsed game_data \<Rightarrow>
          ((True, Some game_data, None),
           if use_cache \<and> truthy cache_key
           then save_to_llm_cache (the cache_key) game_data st1 else st1)
      | JSONDecodeError e \<Rightarrow>
          (let error_msg = ''JSON parsing error: '' @ e in
           if int attempt < max_retries - 1
           then retry_loop body max_retries use_cache cache_key rest
                  (emit (Sleep (2 ^ attempt)) st1)
           else ((False, None, Some error_msg), st1))
      | OtherException tyname e \<Rightarrow>
          (let error_msg = ''LLM error: '' @ tyname @ '': '' @ e in
           if int attempt < max_retries - 1
           then retry_loop body max_retries use_cache cache_key rest
                  (emit (Sleep (2 ^ attempt)) st1)
           else ((False, None, Some error_msg), st1)))"

definition generate_game_json ::
  "pylib \<Rightarrow> (nat \<Rightarrow> attempt_outcome) \<Rightarrow> string \<Rightarrow> string \<Rightarrow> int \<Rightarrow> bool \<Rightarrow> llm_state
   \<Rightarrow> llm_result \<times> llm_state" where
  "generate_game_json lib body user_prompt difficulty max_retries use_cache st =
    (let cache_key = (if use_cache then Some (get_llm_cache_key lib user_prompt None) else None);
         cached_data =
           (if use_cache \<and> truthy cache_key then load_from_llm_cache (the cache_key) st
            else None)
     in case cached_data of
          Some data \<Rightarrow>
            if py_bool data then ((True, Some data, None), st)
            else retry_loop body max_retries use_cache cache_key (py_range max_retries) st
        | None \<Rightarrow> retry_loop body max_retries use_cache cache_key (py_range max_retries) st)"

text \<open>
  For the statements about a failing provider: the error text an outcome gives, the
  attempts and the sleeps of a trace, and the trace of \<^verbatim>\<open>n\<close> failing attempts.
\<close>

fun error_detail :: "attempt_outcome \<Rightarrow> string option" where
  "error_detail (Parsed d) = None"
| "error_detail (JSONDecodeError e) = Some (''JSON parsing error: '' @ e)"
| "error_detail (OtherException tyname e) = Some (''LLM error: '' @ tyname @ '': '' @ e)"

fun is_failure :: "attempt_outcome \<Rightarrow> bool" where
  "is_failure (Parsed d) = False"
| "is_failure _ = True"

fun completions :: "event list \<Rightarrow> nat list" where
  "completions [] = []"
| "completions (Completion a # es) = a # completions es"
| "completions (Sleep s # es) = completions es"

fun sleeps :: "event list \<Rightarrow> nat list" where
  "sleeps [] = []"
| "sleeps (Completion a # es) = sleeps es"
| "sleeps (Sleep s # es) = s # sleeps es"

definition failing_trace :: "nat \<Rightarrow> nat \<Rightarrow> event list" where
  "failing_trace k n =
    concat (map (\<lambda>a. Completion a # (if a + 1 < n then [Sleep (2 ^ a)] else [])) [k..<n])"

definition llm_cache_hit :: "pylib \<Rightarrow> string \<Rightarrow> bool \<Rightarrow> llm_state \<Rightarrow> bool" where
  "llm_cache_hit lib user_prompt use_cache st =
    (use_cache \<and>
      (case llm_files st (get_llm_cache_key lib user_prompt None) of
         None \<Rightarrow> False | Some data \<Rightarrow> py_bool data))"

definition always_bad_json :: "nat \<Rightarrow> attempt_outcome" where
  "always_bad_json attempt = JSONDecodeError ''Expecting value: line 1 column 1 (char 0)''"


section \<open>Background removal (utils/image\_processing.py)\<close>

text \<open>
  The numpy array \<^verbatim>\<open>data\<close> of shape \<^verbatim>\<open>(height, width, 4)\<close> with \<^verbatim>\<open>uint8\<close> entries: its two
  dimensions and the pixel \<^verbatim>\<open>data[y, x]\<close> at every index in range.
\<close>

record pixel =
  red :: "8 word"
  green :: "8 word"
  blue :: "8 word"
  alpha :: "8 word"

record raster =
  height :: nat
  width :: nat
  px :: "nat \<Rightarrow> nat \<Rightarrow> pixel"

text \<open>The three colour channels \<^verbatim>\<open>[:3]\<close> of a pixel as integers.\<close>

type_synonym rgb = "int \<times> int \<times> int"

definition rgb_of :: "pixel \<Rightarrow> rgb" where
  "rgb_of p = (uint (red p), uint (green p), uint (blue p))"

text \<open>
  The border samples, in the order of the four \<^verbatim>\<open>extend\<close> calls: the top row
  \<^verbatim>\<open>data[0, :, :3]\<close>, the bottom row \<^verbatim>\<open>data[height-1, :, :3]\<close>, the left column
  \<^verbatim>\<open>data[:, 0, :3]\<close> and the right column \<^verbatim>\<open>data[:, width-1, :3]\<close>.
\<close>

definition edge_samples :: "raster \<Rightarrow> rgb list" where
  "edge_samples data =
      map (\<lambda>x. rgb_of (px data 0 x)) [0..<width data]
    @ map (\<lambda>x. rgb_of (px data (height data - 1) x)) [0..<width data]
    @ map (\<lambda>y. rgb_of (px data y 0)) [0..<height data]
    @ map (\<lambda>y. rgb_of (px data y (width data - 1))) [0..<height data]"

fun greenish :: "rgb \<Rightarrow> bool" where
  "greenish (r, g, b) = (g > 150 \<and> g > r \<and> g > b)"

text \<open>
  \<^verbatim>\<open>np.median(values).astype(int)\<close> of one channel: the middle element of the sorted
  values, or the mean of the two middle elements, truncated. The median of no value is
  never asked for (the border of an image is not empty).
\<close>

definition np_median_int :: "int list \<Rightarrow> int" where
  "np_median_int xs =
    (let s = sort xs; n = length s in
     if n = 0 then 0
     else if odd n then s ! (n div 2)
     else (s ! (n div 2 - 1) + s ! (n div 2)) div 2)"

definition median_axis0 :: "rgb list \<Rightarrow> rgb" where
  "median_axis0 ps =
    (np_median_int (map (\<lambda>(r, g, b). r) ps),
     np_median_int (map (\<lambda>(r, g, b). g) ps),
     np_median_int (map (\<lambda>(r, g, b). b) ps))"

definition bg_color_of :: "rgb list \<Rightarrow> rgb" where
  "bg_color_of samples =
    (let greenish_pixels = filter greenish samples in
     if length greenish_pixels > 0 then median_axis0 greenish_pixels
     else median_axis0 samples)"

text \<open>
  The Euclidean distance \<^verbatim>\<open>np.sqrt(r_diff**2 + g_diff**2 + b_diff**2)\<close>, in the reals.
\<close>

definition color_distance :: "rgb \<Rightarrow> pixel \<Rightarrow> real" where
  "color_distance bg p =
    (case bg of (bg_r, bg_g, bg_b) \<Rightarrow>
      sqrt (real_of_int ((uint (red p) - bg_r)\<^sup>2 + (uint (green p) - bg_g)\<^sup>2
                         + (uint (blue p) - bg_b)\<^sup>2)))"

text \<open>
  The two assignments to the alpha channel, pixel by pixel: \<^verbatim>\<open>data[green_mask, 3] = 0\<close>,
  then \<^verbatim>\<open>data[feather_mask, 3] = np.minimum(data[feather_mask, 3], feather_alpha)\<close> with
  \<^verbatim>\<open>feather_alpha = ((color_distance - tolerance) / 10 * 255).astype(np.uint8)\<close>. Both masks
  are computed from the distances before the first assignment.
\<close>

definition feather_alpha :: "real \<Rightarrow> int \<Rightarrow> 8 word" where
  "feather_alpha d tolerance = word_of_int \<lfloor>(d - real_of_int tolerance) / 10 * 255\<rfloor>"

definition apply_green_mask :: "real \<Rightarrow> int \<Rightarrow> pixel \<Rightarrow> pixel" where
  "apply_green_mask d tolerance p =
    (if d \<le> real_of_int tolerance then p\<lparr>alpha := 0\<rparr> else p)"

definition apply_feather_mask :: "real \<Rightarrow> int \<Rightarrow> pixel \<Rightarrow> pixel" where
  "apply_feather_mask d tolerance p =
    (let feather_tolerance = tolerance + 10 in
     if d > real_of_int tolerance \<and> d \<le> real_of_int feather_tolerance
     then p\<lparr>alpha := min (alpha p) (feather_alpha d tolerance)\<rparr> else p)"

datatype py_error = IndexError | DecodeFailed | EncodeFailed

text \<open>
  The part of the \<^verbatim>\<open>try\<close> block between \<^verbatim>\<open>np.array(img)\<close> and \<^verbatim>\<open>Image.fromarray\<close>. An
  array with no row or no column raises \<^verbatim>\<open>IndexError\<close> at the border samples.
\<close>

definition process_raster :: "raster \<Rightarrow> int \<Rightarrow> py_error + raster" where
  "process_raster data tolerance =
    (if height data = 0 \<or> width data = 0 then Inl IndexError
     else
       (let bg_color = bg_color_of (edge_samples data) in
        Inr (data\<lparr>px := \<lambda>y x.
               (let d = color_distance bg_color (px data y x) in
                apply_feather_mask d tolerance (apply_green_mask d tolerance (px data y x)))\<rparr>)))"

text \<open>
  Decoding and encoding are the work of the imaging library, parameters of the model:
  \<^verbatim>\<open>decode_image\<close> is \<^verbatim>\<open>base64.b64decode\<close>, \<^verbatim>\<open>Image.open\<close>, the conversion to RGBA and
  \<^verbatim>\<open>np.array\<close> (any of which may raise: \<^const>\<open>None\<close>); \<^verbatim>\<open>encode_png\<close> is
  \<^verbatim>\<open>Image.fromarray\<close>, the saving as PNG and \<^verbatim>\<open>base64.b64encode\<close>.
\<close>

record imglib =
  decode_image :: "string \<Rightarrow> raster option"
  encode_png :: "raster \<Rightarrow> string option"

definition remove_solid_background_try :: "imglib \<Rightarrow> string \<Rightarrow> int \<Rightarrow> py_error + string" where
  "remove_solid_background_try il base64_image tolerance =
    (case (if startswith base64_image ''data:'' then split_comma_1 base64_image
           else Some base64_image) of
       None \<Rightarrow> Inl IndexError
     | Some base64_data \<Rightarrow>
         (case decode_image il base64_data of
            None \<Rightarrow> Inl DecodeFailed
          | Some data \<Rightarrow>
              (case process_raster data tolerance of
                 Inl e \<Rightarrow> Inl e
               | Inr result \<Rightarrow>
                   (case encode_png il result of
                      None \<Rightarrow> Inl EncodeFailed
                    | Some result_base64 \<Rightarrow>
                        Inr (''data:image/png;base64,'' @ result_base64)))))"

text \<open>\<^verbatim>\<open>remove_solid_background\<close>: the \<^verbatim>\<open>try\<close> block, and \<^verbatim>\<open>except Exception\<close> returning the input.\<close>

definition remove_solid_background :: "imglib \<Rightarrow> string \<Rightarrow> int \<Rightarrow> string" where
  "remove_solid_background il base64_image tolerance =
    (case remove_solid_background_try il base64_image tolerance of
       Inl e \<Rightarrow> base64_image
     | Inr result \<Rightarrow> result)"




text \<open>
  Concrete inputs for the examples: an image of one row and three pixels (pure green,
  a darker green, an almost opaque red), an imaging library that decodes one string to
  it and encodes a raster as the bytes of its channels, and one with a constant encoder.
\<close>

definition demo_raster :: raster where
  "demo_raster =
    \<lparr> height = 1, width = 3,
      px = (\<lambda>y x.
        if x = 0 then \<lparr>red = 0, green = 255, blue = 0, alpha = 255\<rparr>
        else if x = 1 then \<lparr>red = 0, green = 215, blue = 0, alpha = 255\<rparr>
        else \<lparr>red = 255, green = 0, blue = 0, alpha = 200\<rparr>) \<rparr>"

definition demo_codec :: imglib where
  "demo_codec =
    \<lparr> decode_image = (\<lambda>s. if s = ''AAAA'' then Some demo_raster else None),
      encode_png = (\<lambda>r. Some (concat (map (\<lambda>y. concat (map (\<lambda>x.
          [char_of (unat (red (px r y x))), char_of (unat (green (px r y x))),
           char_of (unat (blue (px r y x))), char_of (unat (alpha (px r y x)))])
          [0..<width r])) [0..<height r]))) \<rparr>"

definition demo_imglib :: imglib where
  "demo_imglib =
    \<lparr> decode_image = (\<lambda>s. if s = ''AAAA'' then Some demo_raster else None),
      encode_png = (\<lambda>r. Some ''BBBB'') \<rparr>"


section \<open>Schema validation (models/game\_data.py, utils/validation.py)\<close>

text \<open>
  The raw document handed to \<^verbatim>\<open>GameData(**data)\<close> is a dictionary: every key may be absent
  (\<^const>\<open>None\<close>). The values that are present have the JSON type of their field; a value of
  another type is outside this model. An error of the validation is a location (field
  names and list indexes) and a message.
\<close>

datatype loc_item = Key string | Index nat

type_synonym line_error = "loc_item list \<times> string"

definition under :: "loc_item \<Rightarrow> line_error list \<Rightarrow> line_error list" where
  "under l es = map (\<lambda>(loc, msg). (l # loc, msg)) es"

fun str_nat :: "nat \<Rightarrow> string" where
  "str_nat n =
    (if n < 10 then [hex_digit n] else str_nat (n div 10) @ [hex_digit (n mod 10)])"

declare str_nat.simps [simp del]

definition plural :: "nat \<Rightarrow> string" where
  "plural n = (if n = 1 then [] else ''s'')"

text \<open>
  The constraints of \<^verbatim>\<open>Field(...)\<close>, with the messages of the validation library. A
  required field that is absent gives ``Field required''; an optional field that is
  absent is not validated.
\<close>

definition required :: "string \<Rightarrow> 'a option \<Rightarrow> ('a \<Rightarrow> line_error list) \<Rightarrow> line_error list" where
  "required name v chk =
    (case v of None \<Rightarrow> [([Key name], ''Field required'')] | Some x \<Rightarrow> under (Key name) (chk x))"

definition optional :: "string \<Rightarrow> 'a option \<Rightarrow> ('a \<Rightarrow> line_error list) \<Rightarrow> line_error list" where
  "optional name v chk = (case v of None \<Rightarrow> [] | Some x \<Rightarrow> under (Key name) (chk x))"

definition no_check :: "'a \<Rightarrow> line_error list" where
  "no_check v = []"

definition check_str :: "nat \<Rightarrow> nat option \<Rightarrow> string \<Rightarrow> line_error list" where
  "check_str min_length max_length s =
    (if py_len s < min_length then
       [([], ''String should have at least '' @ str_nat min_length @ '' character''
              @ plural min_length)]
     else
       (case max_length of
          None \<Rightarrow> []
        | Some m \<Rightarrow>
            if m < py_len s then
              [([], ''String should have at most '' @ str_nat m @ '' character'' @ plural m)]
            else []))"

text \<open>The pattern \<^verbatim>\<open>^#[0-9A-Fa-f]{6}$\<close> of the three colours of the palette.\<close>

definition hex_color :: "string \<Rightarrow> bool" where
  "hex_color s =
    (case s of
       [] \<Rightarrow> False
     | c # cs \<Rightarrow> c = CHR ''#'' \<and> length cs = 6
                 \<and> list_all (\<lambda>d. d \<in> set ''0123456789ABCDEFabcdef'') cs)"

definition check_hex_color :: "string \<Rightarrow> line_error list" where
  "check_hex_color s =
    (if hex_color s then []
     else [([], ''String should match pattern '^#[0-9A-Fa-f]{6}$'' @ [CHR 0x27])])"

definition check_int :: "int option \<Rightarrow> int option \<Rightarrow> int \<Rightarrow> line_error list" where
  "check_int ge le v =
    (if (case le of None \<Rightarrow> False | Some b \<Rightarrow> b < v) then
       [([], ''Input should be less than or equal to '' @ str_nat (nat (the le)))]
     else if (case ge of None \<Rightarrow> False | Some b \<Rightarrow> v < b) then
       [([], ''Input should be greater than or equal to '' @ str_nat (nat (the ge)))]
     else [])"

text \<open>
  A bound of a \<^verbatim>\<open>float\<close> field comes with the text the message prints for it.
\<close>

definition check_float ::
  "(pyfloat \<times> string) option \<Rightarrow> (pyfloat \<times> string) option \<Rightarrow> pyfloat \<Rightarrow> line_error list" where
  "check_float ge le v =
    (if (case le of None \<Rightarrow> False | Some (b, t) \<Rightarrow> b < v) then
       [([], ''Input should be less than or equal to '' @ snd (the le))]
     else if (case ge of None \<Rightarrow> False | Some (b, t) \<Rightarrow> v < b) then
       [([], ''Input should be greater than or equal to '' @ snd (the ge))]
     else [])"

text \<open>
  A list field: the items are validated in order and their errors collected under their
  indexes; a list longer than \<^verbatim>\<open>max_length\<close> stops the validation of the list with the one
  error ``too long''; \<^verbatim>\<open>min_length\<close> is checked when every item is valid.
\<close>

definition check_list ::
  "nat \<Rightarrow> nat option \<Rightarrow> ('a \<Rightarrow> line_error list) \<Rightarrow> 'a list \<Rightarrow> line_error list" where
  "check_list min_length max_length chk xs =
    (if (case max_length of None \<Rightarrow> False | Some m \<Rightarrow> m < length xs) then
       [([], ''List should have at most '' @ str_nat (the max_length) @ '' item''
              @ plural (the max_length) @ '' after validation, not '' @ str_nat (length xs))]
     else
       (let errs = concat (map (\<lambda>(i, x). under (Index i) (chk x)) (enumerate 0 xs)) in
        if errs \<noteq> [] then errs
        else if length xs < min_length then
          [([], ''List should have at least '' @ str_nat min_length @ '' item''
                 @ plural min_length @ '' after validation, not '' @ str_nat (length xs))]
        else []))"

text \<open>
  What a function decorated with \<^verbatim>\<open>field_validator\<close> does: it returns its argument, or
  raises \<^verbatim>\<open>ValueError\<close> (which the library turns into the error ``Value error, ...'' of the
  field), or raises another exception, which the library does not catch. It runs after
  the validation of the field, and only when that found no error.
\<close>

datatype validator_result = Returns | ValueError string | TypeError string

definition value_error :: "validator_result \<Rightarrow> line_error list" where
  "value_error r = (case r of ValueError m \<Rightarrow> [([], ''Value error, '' @ m)] | _ \<Rightarrow> [])"

definition after :: "line_error list \<Rightarrow> validator_result \<Rightarrow> line_error list" where
  "after errs r = (if errs \<noteq> [] then errs else value_error r)"

subsection \<open>Story\<close>

record RawPalette =
  raw_ansi_fg :: "string option"
  raw_ansi_bg :: "string option"
  raw_accent :: "string option"

definition errors_Palette :: "RawPalette \<Rightarrow> line_error list" where
  "errors_Palette p =
      required ''ansi_fg'' (raw_ansi_fg p) check_hex_color
    @ required ''ansi_bg'' (raw_ansi_bg p) check_hex_color
    @ required ''accent'' (raw_accent p) check_hex_color"

definition build_Palette :: "RawPalette \<Rightarrow> Palette" where
  "build_Palette p =
    \<lparr> ansi_fg = the (raw_ansi_fg p), ansi_bg = the (raw_ansi_bg p), accent = the (raw_accent p) \<rparr>"

record RawStory =
  raw_os_name :: "string option"
  raw_tagline :: "string option"
  raw_palette :: "RawPalette option"

definition errors_Story :: "RawStory \<Rightarrow> line_error list" where
  "errors_Story s =
      required ''os_name'' (raw_os_name s) (check_str 1 (Some 100))
    @ required ''tagline'' (raw_tagline s) (check_str 1 (Some 200))
    @ required ''palette'' (raw_palette s) errors_Palette"

definition build_Story :: "RawStory \<Rightarrow> Story" where
  "build_Story s =
    \<lparr> os_name = the (raw_os_name s), tagline = the (raw_tagline s),
      palette = build_Palette (the (raw_palette s)) \<rparr>"

subsection \<open>Stages\<close>

record RawParallaxLayer =
  raw_layer_id :: "string option"
  raw_layer_prompt :: "string option"
  raw_depth :: "pyfloat option"

definition errors_ParallaxLayer :: "RawParallaxLayer \<Rightarrow> line_error list" where
  "errors_ParallaxLayer l =
      required ''id'' (raw_layer_id l) (check_str 1 None)
    @ required ''prompt'' (raw_layer_prompt l) (check_str 10 (Some 500))
    @ required ''depth'' (raw_depth l) (check_float (Some (0, ''0'')) (Some (1, ''1'')))"

definition build_ParallaxLayer :: "RawParallaxLayer \<Rightarrow> ParallaxLayer" where
  "build_ParallaxLayer l =
    \<lparr> layer_id = the (raw_layer_id l), layer_prompt = the (raw_layer_prompt l),
      depth = the (raw_depth l) \<rparr>"

record RawWave =
  raw_wave_time :: "int option"
  raw_formation :: "string option"
  raw_enemy_type :: "string option"
  raw_wave_count :: "int option"
  raw_path :: "string option"

definition validate_formation :: "string \<Rightarrow> validator_result" where
  "validate_formation v =
    (if v \<notin> set [''v_wave'', ''column'', ''line'', ''arc'', ''circle'', ''random''] then
       ValueError
         ''Formation must be one of ['v_wave', 'column', 'line', 'arc', 'circle', 'random']''
     else Returns)"

definition validate_path :: "string \<Rightarrow> validator_result" where
  "validate_path v =
    (if v \<notin> set [''straight'', ''sine'', ''seek'', ''arc'', ''spiral''] then
       ValueError ''Path must be one of ['straight', 'sine', 'seek', 'arc', 'spiral']''
     else Returns)"

definition errors_Wave :: "RawWave \<Rightarrow> line_error list" where
  "errors_Wave w =
      required ''time'' (raw_wave_time w) (check_int (Some 0) None)
    @ required ''formation'' (raw_formation w) (\<lambda>v. after (no_check v) (validate_formation v))
    @ required ''enemy_type'' (raw_enemy_type w) no_check
    @ required ''count'' (raw_wave_count w) (check_int (Some 1) (Some 50))
    @ required ''path'' (raw_path w) (\<lambda>v. after (no_check v) (validate_path v))"

definition build_Wave :: "RawWave \<Rightarrow> Wave" where
  "build_Wave w =
    \<lparr> wave_time = the (raw_wave_time w), formation = the (raw_formation w),
      enemy_type = the (raw_enemy_type w), wave_count = the (raw_wave_count w),
      path = the (raw_path w) \<rparr>"

record RawBossPhase =
  raw_phase_hp :: "int option"
  raw_phase_patterns :: "string list option"

definition errors_BossPhase :: "RawBossPhase \<Rightarrow> line_error list" where
  "errors_BossPhase p =
      required ''hp'' (raw_phase_hp p) (check_int (Some 100) (Some 10000))
    @ required ''patterns'' (raw_phase_patterns p) (check_list 1 (Some 10) no_check)"

definition build_BossPhase :: "RawBossPhase \<Rightarrow> BossPhase" where
  "build_BossPhase p =
    \<lparr> phase_hp = the (raw_phase_hp p), phase_patterns = the (raw_phase_patterns p) \<rparr>"

record RawBoss =
  raw_boss_id :: "string option"
  raw_boss_title :: "string option"
  raw_boss_sprite_prompt :: "string option"
  raw_phases :: "RawBossPhase list option"

definition errors_Boss :: "RawBoss \<Rightarrow> line_error list" where
  "errors_Boss b =
      required ''id'' (raw_boss_id b) (check_str 1 None)
    @ required ''title'' (raw_boss_title b) (check_str 1 (Some 100))
    @ optional ''sprite_prompt'' (raw_boss_sprite_prompt b) (check_str 0 (Some 500))
    @ required ''phases'' (raw_phases b) (check_list 1 (Some 5) errors_BossPhase)"

definition build_Boss :: "RawBoss \<Rightarrow> Boss" where
  "build_Boss b =
    \<lparr> boss_id = the (raw_boss_id b), boss_title = the (raw_boss_title b),
      boss_sprite_prompt = raw_boss_sprite_prompt b,
      phases = map build_BossPhase (the (raw_phases b)) \<rparr>"

record RawStage =
  raw_stage_id :: "string option"
  raw_stage_title :: "string option"
  raw_scroll_speed :: "pyfloat option"
  raw_length_sec :: "int option"
  raw_parallax :: "RawParallaxLayer list option"
  raw_waves :: "RawWave list option"
  raw_boss :: "RawBoss option"

definition errors_Stage :: "RawStage \<Rightarrow> line_error list" where
  "errors_Stage s =
      required ''id'' (raw_stage_id s) (check_str 1 None)
    @ required ''title'' (raw_stage_title s) (check_str 1 (Some 100))
    @ required ''scroll_speed'' (raw_scroll_speed s)
        (check_float (Some (1 / 10, ''0.1'')) (Some (5, ''5'')))
    @ required ''length_sec'' (raw_length_sec s) (check_int (Some 60) (Some 600))
    @ required ''parallax'' (raw_parallax s) (check_list 1 (Some 5) errors_ParallaxLayer)
    @ required ''waves'' (raw_waves s) (check_list 1 (Some 50) errors_Wave)
    @ required ''boss'' (raw_boss s) errors_Boss"

definition build_Stage :: "RawStage \<Rightarrow> Stage" where
  "build_Stage s =
    \<lparr> stage_id = the (raw_stage_id s), stage_title = the (raw_stage_title s),
      scroll_speed = the (raw_scroll_speed s), length_sec = the (raw_length_sec s),
      parallax = map build_ParallaxLayer (the (raw_parallax s)),
      waves = map build_Wave (the (raw_waves s)),
      boss = build_Boss (the (raw_boss s)) \<rparr>"


subsection \<open>Enemies and combat\<close>

record RawEnemy =
  raw_enemy_id :: "string option"
  raw_enemy_name :: "string option"
  raw_enemy_hp :: "int option"
  raw_enemy_speed :: "pyfloat option"
  raw_radius :: "int option"
  raw_enemy_sprite_prompt :: "string option"
  raw_score :: "int option"

definition errors_Enemy :: "RawEnemy \<Rightarrow> line_error list" where
  "errors_Enemy e =
      required ''id'' (raw_enemy_id e) (check_str 1 None)
    @ required ''name'' (raw_enemy_name e) (check_str 1 (Some 100))
    @ required ''hp'' (raw_enemy_hp e) (check_int (Some 1) (Some 1000))
    @ required ''speed'' (raw_enemy_speed e)
        (check_float (Some (1 / 10, ''0.1'')) (Some (10, ''10'')))
    @ required ''radius'' (raw_radius e) (check_int (Some 4) (Some 64))
    @ required ''sprite_prompt'' (raw_enemy_sprite_prompt e) (check_str 10 (Some 500))
    @ optional ''score'' (raw_score e) (check_int (Some 0) None)"

definition build_Enemy :: "RawEnemy \<Rightarrow> Enemy" where
  "build_Enemy e =
    \<lparr> enemy_id = the (raw_enemy_id e), enemy_name = the (raw_enemy_name e),
      enemy_hp = the (raw_enemy_hp e), enemy_speed = the (raw_enemy_speed e),
      radius = the (raw_radius e), enemy_sprite_prompt = the (raw_enemy_sprite_prompt e),
      score = (case raw_score e of None \<Rightarrow> Some 100 | Some v \<Rightarrow> Some v) \<rparr>"

record RawBulletPattern =
  raw_pattern_id :: "string option"
  raw_pattern_type :: "string option"
  raw_bullets :: "int option"
  raw_spread_deg :: "pyfloat option"
  raw_arc_deg :: "pyfloat option"
  raw_cooldown_ms :: "int option"
  raw_pattern_speed :: "pyfloat option"
  raw_rate :: "pyfloat option"
  raw_dual :: "bool option"

definition validate_type :: "string \<Rightarrow> validator_result" where
  "validate_type v =
    (if v \<notin> set [''fan'', ''burst'', ''spiral'', ''laser'', ''aimed'', ''stream'', ''ring''] then
       ValueError
         ''Pattern type must be one of ['fan', 'burst', 'spiral', 'laser', 'aimed', 'stream', 'ring']''
     else Returns)"

definition errors_BulletPattern :: "RawBulletPattern \<Rightarrow> line_error list" where
  "errors_BulletPattern p =
      required ''id'' (raw_pattern_id p) (check_str 1 None)
    @ required ''type'' (raw_pattern_type p) (\<lambda>v. after (no_check v) (validate_type v))
    @ optional ''bullets'' (raw_bullets p) (check_int (Some 1) (Some 100))
    @ optional ''spread_deg'' (raw_spread_deg p)
        (check_float (Some (0, ''0'')) (Some (360, ''360'')))
    @ optional ''arc_deg'' (raw_arc_deg p)
        (check_float (Some (0, ''0'')) (Some (360, ''360'')))
    @ required ''cooldown_ms'' (raw_cooldown_ms p) (check_int (Some 100) (Some 10000))
    @ optional ''speed'' (raw_pattern_speed p)
        (check_float (Some (50, ''50'')) (Some (1000, ''1000'')))
    @ optional ''rate'' (raw_rate p)
        (check_float (Some (1 / 100, ''0.01'')) (Some (1, ''1'')))
    @ optional ''dual'' (raw_dual p) no_check"

definition build_BulletPattern :: "RawBulletPattern \<Rightarrow> BulletPattern" where
  "build_BulletPattern p =
    \<lparr> pattern_id = the (raw_pattern_id p), pattern_type = the (raw_pattern_type p),
      bullets = raw_bullets p, spread_deg = raw_spread_deg p, arc_deg = raw_arc_deg p,
      cooldown_ms = the (raw_cooldown_ms p),
      pattern_speed = (case raw_pattern_speed p of None \<Rightarrow> Some 300 | Some v \<Rightarrow> Some v),
      rate = raw_rate p,
      dual = (case raw_dual p of None \<Rightarrow> Some False | Some v \<Rightarrow> Some v) \<rparr>"

record RawWeapon =
  raw_weapon_id :: "string option"
  raw_weapon_name :: "string option"
  raw_dps :: "pyfloat option"
  raw_projectile_speed :: "pyfloat option"
  raw_spread :: "pyfloat option"
  raw_fire_rate :: "pyfloat option"

definition errors_Weapon :: "RawWeapon \<Rightarrow> line_error list" where
  "errors_Weapon w =
      required ''id'' (raw_weapon_id w) (check_str 1 None)
    @ optional ''name'' (raw_weapon_name w) (check_str 0 (Some 100))
    @ required ''dps'' (raw_dps w) (check_float (Some (10, ''10'')) (Some (1000, ''1000'')))
    @ required ''projectile_speed'' (raw_projectile_speed w)
        (check_float (Some (100, ''100'')) (Some (2000, ''2000'')))
    @ optional ''spread'' (raw_spread w) (check_float (Some (0, ''0'')) (Some (90, ''90'')))
    @ required ''fire_rate'' (raw_fire_rate w)
        (check_float (Some (1, ''1'')) (Some (60, ''60'')))"

definition build_Weapon :: "RawWeapon \<Rightarrow> Weapon" where
  "build_Weapon w =
    \<lparr> weapon_id = the (raw_weapon_id w), weapon_name = raw_weapon_name w,
      dps = the (raw_dps w), projectile_speed = the (raw_projectile_speed w),
      spread = (case raw_spread w of None \<Rightarrow> 0 | Some v \<Rightarrow> v),
      fire_rate = the (raw_fire_rate w) \<rparr>"

record RawPickup =
  raw_pickup_id :: "string option"
  raw_pickup_name :: "string option"
  raw_effect :: "string option"
  raw_pickup_sprite_prompt :: "string option"

definition errors_Pickup :: "RawPickup \<Rightarrow> line_error list" where
  "errors_Pickup p =
      required ''id'' (raw_pickup_id p) (check_str 1 None)
    @ optional ''name'' (raw_pickup_name p) (check_str 0 (Some 100))
    @ required ''effect'' (raw_effect p) no_check
    @ optional ''sprite_prompt'' (raw_pickup_sprite_prompt p) (check_str 0 (Some 500))"

definition build_Pickup :: "RawPickup \<Rightarrow> Pickup" where
  "build_Pickup p =
    \<lparr> pickup_id = the (raw_pickup_id p), pickup_name = raw_pickup_name p,
      effect = the (raw_effect p), pickup_sprite_prompt = raw_pickup_sprite_prompt p \<rparr>"

subsection \<open>Player and terminal skin\<close>

record RawCRTEffects =
  raw_scanlines :: "bool option"
  raw_glow :: "pyfloat option"
  raw_vignette :: "pyfloat option"
  raw_flicker :: "pyfloat option"

definition errors_CRTEffects :: "RawCRTEffects \<Rightarrow> line_error list" where
  "errors_CRTEffects c =
      optional ''scanlines'' (raw_scanlines c) no_check
    @ optional ''glow'' (raw_glow c) (check_float (Some (0, ''0'')) (Some (1, ''1'')))
    @ optional ''vignette'' (raw_vignette c) (check_float (Some (0, ''0'')) (Some (1, ''1'')))
    @ optional ''flicker'' (raw_flicker c) (check_float (Some (0, ''0'')) (Some (1, ''1'')))"

definition build_CRTEffects :: "RawCRTEffects \<Rightarrow> CRTEffects" where
  "build_CRTEffects c =
    \<lparr> scanlines = (case raw_scanlines c of None \<Rightarrow> True | Some v \<Rightarrow> v),
      glow = (case raw_glow c of None \<Rightarrow> 3 / 10 | Some v \<Rightarrow> v),
      vignette = (case raw_vignette c of None \<Rightarrow> 2 / 10 | Some v \<Rightarrow> v),
      flicker = (case raw_flicker c of None \<Rightarrow> Some 0 | Some v \<Rightarrow> Some v) \<rparr>"

record RawPlayer =
  raw_player_sprite_prompt :: "string option"

definition errors_Player :: "RawPlayer \<Rightarrow> line_error list" where
  "errors_Player p =
    required ''sprite_prompt'' (raw_player_sprite_prompt p) (check_str 10 (Some 500))"

definition build_Player :: "RawPlayer \<Rightarrow> Player" where
  "build_Player p = \<lparr> player_sprite_prompt = the (raw_player_sprite_prompt p) \<rparr>"

record RawTUISkin =
  raw_frame_prompt :: "string option"
  raw_glyph_bullets :: "bool option"
  raw_glyph_set :: "string list option"
  raw_crt_effects :: "RawCRTEffects option"
  raw_boot_sequence :: "string list option"

definition errors_TUISkin :: "RawTUISkin \<Rightarrow> line_error list" where
  "errors_TUISkin t =
      required ''frame_prompt'' (raw_frame_prompt t) (check_str 10 (Some 500))
    @ optional ''glyph_bullets'' (raw_glyph_bullets t) no_check
    @ required ''glyph_set'' (raw_glyph_set t) (check_list 3 (Some 20) no_check)
    @ required ''crt_effects'' (raw_crt_effects t) errors_CRTEffects
    @ optional ''boot_sequence'' (raw_boot_sequence t) (check_list 0 (Some 10) no_check)"

definition build_TUISkin :: "RawTUISkin \<Rightarrow> TUISkin" where
  "build_TUISkin t =
    \<lparr> frame_prompt = the (raw_frame_prompt t),
      glyph_bullets = (case raw_glyph_bullets t of None \<Rightarrow> True | Some v \<Rightarrow> v),
      glyph_set = the (raw_glyph_set t),
      crt_effects = build_CRTEffects (the (raw_crt_effects t)),
      boot_sequence = raw_boot_sequence t \<rparr>"

subsection \<open>The root object\<close>

text \<open>
  \<^verbatim>\<open>bullet_patterns\<close> is \<^verbatim>\<open>Optional[List[BulletPattern]]\<close> with the default \<^verbatim>\<open>None\<close>: the key
  may be absent (the default is taken and no validator runs), or hold JSON \<^verbatim>\<open>null\<close>
  (a valid value of the field, handed to the validator), or hold a list.
\<close>

datatype 'a nullable = Absent | Null | Given 'a

record RawGameData =
  raw_game_id :: "string option"
  raw_story :: "RawStory option"
  raw_player :: "RawPlayer option"
  raw_stages :: "RawStage list option"
  raw_enemies :: "RawEnemy list option"
  raw_bullet_patterns :: "RawBulletPattern list nullable"
  raw_weapons :: "RawWeapon list option"
  raw_pickups :: "RawPickup list option"
  raw_tui_skin :: "RawTUISkin option"
  raw_metadata :: "(string \<times> string) list option"

text \<open>
  The three validators of the identifiers. \<^verbatim>\<open>len(ids) != len(set(ids))\<close> compares the
  length of the list with the number of different identifiers. \<^verbatim>\<open>validate_patterns\<close>
  receives \<^verbatim>\<open>None\<close> when the document gives \<^verbatim>\<open>null\<close>; its comprehension then raises
  \<^verbatim>\<open>TypeError\<close>.
\<close>

definition validate_stages :: "Stage list \<Rightarrow> validator_result" where
  "validate_stages v =
    (let ids = map stage_id v in
     if length ids \<noteq> card (set ids) then ValueError ''Stage IDs must be unique''
     else Returns)"

definition validate_enemies :: "Enemy list \<Rightarrow> validator_result" where
  "validate_enemies v =
    (let ids = map enemy_id v in
     if length ids \<noteq> card (set ids) then ValueError ''Enemy IDs must be unique''
     else Returns)"

definition validate_patterns :: "BulletPattern list option \<Rightarrow> validator_result" where
  "validate_patterns v =
    (case v of
       None \<Rightarrow> TypeError '''NoneType' object is not iterable''
     | Some ps \<Rightarrow>
         (let ids = map pattern_id ps in
          if length ids \<noteq> card (set ids) then ValueError ''Bullet pattern IDs must be unique''
          else Returns))"

text \<open>
  \<^verbatim>\<open>str(uuid.uuid4())\<close>: sixteen random bytes (the parameter \<^verbatim>\<open>rnd\<close>) with the variant
  and the version bits set, printed as 32 hexadecimal digits in five groups.
\<close>

definition uuid4_int :: "128 word \<Rightarrow> 128 word" where
  "uuid4_int rnd =
    (((rnd AND NOT (push_bit 48 0xc000)) OR push_bit 48 0x8000)
       AND NOT (push_bit 64 0xf000)) OR push_bit 76 4"

definition uuid4_str :: "128 word \<Rightarrow> string" where
  "uuid4_str rnd =
    (let h = hex_of_word 32 (uuid4_int rnd) in
     take 8 h @ ''-'' @ take 4 (drop 8 h) @ ''-'' @ take 4 (drop 12 h) @ ''-''
       @ take 4 (drop 16 h) @ ''-'' @ drop 20 h)"

text \<open>
  The errors of the fields, in the order of the class. A uniqueness validator runs only
  when its list has no error of its own.
\<close>

definition errors_stages :: "RawGameData \<Rightarrow> line_error list" where
  "errors_stages d =
    (let inner = required ''stages'' (raw_stages d) (check_list 1 (Some 10) errors_Stage) in
     if inner \<noteq> [] then inner
     else under (Key ''stages'')
            (value_error (validate_stages (map build_Stage (the (raw_stages d))))))"

definition errors_enemies :: "RawGameData \<Rightarrow> line_error list" where
  "errors_enemies d =
    (let inner = required ''enemies'' (raw_enemies d) (check_list 1 (Some 50) errors_Enemy) in
     if inner \<noteq> [] then inner
     else under (Key ''enemies'')
            (value_error (validate_enemies (map build_Enemy (the (raw_enemies d))))))"

definition errors_bullet_patterns :: "RawGameData \<Rightarrow> line_error list" where
  "errors_bullet_patterns d =
    (case raw_bullet_patterns d of
       Absent \<Rightarrow> []
     | Null \<Rightarrow> []
     | Given ps \<Rightarrow>
         (let inner = under (Key ''bullet_patterns'') (check_list 0 None errors_BulletPattern ps) in
          if inner \<noteq> [] then inner
          else under (Key ''bullet_patterns'')
                 (value_error (validate_patterns (Some (map build_BulletPattern ps))))))"

definition errors_GameData :: "RawGameData \<Rightarrow> line_error list" where
  "errors_GameData d =
      required ''story'' (raw_story d) errors_Story
    @ required ''player'' (raw_player d) errors_Player
    @ errors_stages d
    @ errors_enemies d
    @ errors_bullet_patterns d
    @ required ''weapons'' (raw_weapons d) (check_list 1 (Some 10) errors_Weapon)
    @ required ''pickups'' (raw_pickups d) (check_list 1 (Some 20) errors_Pickup)
    @ optional ''tui_skin'' (raw_tui_skin d) errors_TUISkin"

definition build_GameData :: "128 word \<Rightarrow> RawGameData \<Rightarrow> GameData" where
  "build_GameData rnd d =
    \<lparr> game_id = (case raw_game_id d of None \<Rightarrow> uuid4_str rnd | Some g \<Rightarrow> g),
      story = build_Story (the (raw_story d)),
      player = build_Player (the (raw_player d)),
      stages = map build_Stage (the (raw_stages d)),
      enemies = map build_Enemy (the (raw_enemies d)),
      bullet_patterns =
        (case raw_bullet_patterns d of
           Absent \<Rightarrow> None | Null \<Rightarrow> None | Given ps \<Rightarrow> Some (map build_BulletPattern ps)),
      weapons = map build_Weapon (the (raw_weapons d)),
      pickups = map build_Pickup (the (raw_pickups d)),
      tui_skin = map_option build_TUISkin (raw_tui_skin d),
      metadata = raw_metadata d \<rparr>"

text \<open>
  \<^verbatim>\<open>GameData(**data)\<close>: the object, or \<^verbatim>\<open>ValidationError\<close> with the collected errors, or
  the exception a validator raised that is not a \<^verbatim>\<open>ValueError\<close>. Such an exception leaves
  the validation at once, whatever errors were collected.
\<close>

datatype init_result =
    Constructed GameData
  | ValidationError "line_error list"
  | Uncaught string

definition GameData_init :: "128 word \<Rightarrow> RawGameData \<Rightarrow> init_result" where
  "GameData_init rnd d =
    (if raw_bullet_patterns d = Null then
       (case validate_patterns None of
          TypeError m \<Rightarrow> Uncaught (''TypeError: '' @ m)
        | _ \<Rightarrow> ValidationError (errors_GameData d))
     else if errors_GameData d \<noteq> [] then ValidationError (errors_GameData d)
     else Constructed (build_GameData rnd d))"

subsection \<open>validate\_game\_data\<close>

fun join :: "string \<Rightarrow> string list \<Rightarrow> string" where
  "join sep [] = []"
| "join sep [x] = x"
| "join sep (x # y # ys) = x @ sep @ join sep (y # ys)"

fun str_loc :: "loc_item \<Rightarrow> string" where
  "str_loc (Key k) = k"
| "str_loc (Index i) = str_nat i"

text \<open>
  \<^verbatim>\<open>format_validation_error\<close>. The bullet of the source file is the seven bytes
  \<^verbatim>\<open>c3 a2 e2 82 ac c2 a2\<close>.
\<close>

definition bullet :: string where
  "bullet = [CHR 0xC3, CHR 0xA2, CHR 0xE2, CHR 0x82, CHR 0xAC, CHR 0xC2, CHR 0xA2]"

definition format_line :: "line_error \<Rightarrow> string" where
  "format_line err =
    (case err of (loc, msg) \<Rightarrow>
      ''  '' @ bullet @ '' '' @ join '' -> '' (map str_loc loc) @ '': '' @ msg)"

definition format_validation_error :: "line_error list \<Rightarrow> string" where
  "format_validation_error errors =
    ''Validation failed:'' @ [CHR 0x0A] @ join [CHR 0x0A] (map format_line errors)"

text \<open>
  \<^verbatim>\<open>validate_game_data\<close> catches \<^verbatim>\<open>ValidationError\<close> only: it returns its triple, or the
  other exception reaches the caller.
\<close>

datatype 'a outcome = Returned 'a | Raised string

definition validate_game_data ::
  "128 word \<Rightarrow> RawGameData \<Rightarrow> (bool \<times> GameData option \<times> string option) outcome" where
  "validate_game_data rnd data =
    (case GameData_init rnd data of
       Constructed game_data \<Rightarrow> Returned (True, Some game_data, None)
     | ValidationError e \<Rightarrow> Returned (False, None, Some (format_validation_error e))
     | Uncaught m \<Rightarrow> Raised m)"


text \<open>
  Concrete documents for the examples: a small valid document without \<^verbatim>\<open>game_id\<close>, the
  same document with a second stage that repeats the identifier of the first and is too
  short (\<^verbatim>\<open>length_sec = 10\<close>), the same document with its enemy listed twice, and the same
  document with twice an enemy whose \<^verbatim>\<open>sprite_prompt\<close> is six times the letter e with an
  acute accent (six characters, twelve bytes).
\<close>

definition demo_stage :: RawStage where
  "demo_stage =
    \<lparr> raw_stage_id = Some ''mod-init'', raw_stage_title = Some ''initd: Cathedral Kernel'',
      raw_scroll_speed = Some 1, raw_length_sec = Some 240,
      raw_parallax =
        Some [\<lparr> raw_layer_id = Some ''bg_ribs'',
                 raw_layer_prompt = Some ''biomechanical ribbed tunnel'',
                 raw_depth = Some (2 / 10) \<rparr>],
      raw_waves =
        Some [\<lparr> raw_wave_time = Some 5, raw_formation = Some ''v_wave'',
                 raw_enemy_type = Some ''glyph_worm'', raw_wave_count = Some 6,
                 raw_path = Some ''sine'' \<rparr>],
      raw_boss =
        Some \<lparr> raw_boss_id = Some ''daemon_seraph'', raw_boss_title = Some ''Seraph of Sockets'',
               raw_boss_sprite_prompt = None,
               raw_phases =
                 Some [\<lparr> raw_phase_hp = Some 1000,
                          raw_phase_patterns = Some [''fan_5''] \<rparr>] \<rparr> \<rparr>"

definition demo_enemy :: RawEnemy where
  "demo_enemy =
    \<lparr> raw_enemy_id = Some ''glyph_worm'', raw_enemy_name = Some ''Glyph Worm'',
      raw_enemy_hp = Some 24, raw_enemy_speed = Some (12 / 10), raw_radius = Some 10,
      raw_enemy_sprite_prompt = Some ''side-view biomech larva'', raw_score = None \<rparr>"

definition demo_doc :: RawGameData where
  "demo_doc =
    \<lparr> raw_game_id = None,
      raw_story =
        Some \<lparr> raw_os_name = Some ''FantasyOS'', raw_tagline = Some ''A living terminal'',
               raw_palette =
                 Some \<lparr> raw_ansi_fg = Some ''#00FFD1'', raw_ansi_bg = Some ''#06080A'',
                        raw_accent = Some ''#8AE6FF'' \<rparr> \<rparr>,
      raw_player = Some \<lparr> raw_player_sprite_prompt = Some ''sleek fighter jet'' \<rparr>,
      raw_stages = Some [demo_stage],
      raw_enemies = Some [demo_enemy],
      raw_bullet_patterns = Absent,
      raw_weapons =
        Some [\<lparr> raw_weapon_id = Some ''needle_rifle'', raw_weapon_name = None,
                 raw_dps = Some 120, raw_projectile_speed = Some 900, raw_spread = None,
                 raw_fire_rate = Some 8 \<rparr>],
      raw_pickups =
        Some [\<lparr> raw_pickup_id = Some ''shield_cell'', raw_pickup_name = None,
                 raw_effect = Some ''shield+1'', raw_pickup_sprite_prompt = None \<rparr>],
      raw_tui_skin = None,
      raw_metadata = None \<rparr>"

definition short_duplicate_doc :: RawGameData where
  "short_duplicate_doc =
    demo_doc\<lparr> raw_stages := Some [demo_stage, demo_stage\<lparr> raw_length_sec := Some 10 \<rparr>] \<rparr>"

definition accented_enemy :: RawEnemy where
  "accented_enemy =
    demo_enemy\<lparr> raw_enemy_sprite_prompt :=
      Some [CHR 0xC3, CHR 0xA9, CHR 0xC3, CHR 0xA9, CHR 0xC3, CHR 0xA9,
            CHR 0xC3, CHR 0xA9, CHR 0xC3, CHR 0xA9, CHR 0xC3, CHR 0xA9] \<rparr>"

definition accented_duplicate_doc :: RawGameData where
  "accented_duplicate_doc = demo_doc\<lparr> raw_enemies := Some [accented_enemy, accented_enemy] \<rparr>"

definition duplicate_enemy_doc :: RawGameData where
  "duplicate_enemy_doc = demo_doc\<lparr> raw_enemies := Some [demo_enemy, demo_enemy] \<rparr>"


section \<open>SHA-256 (hashlib)\<close>

text \<open>
  The digest function of the standard library, \<^verbatim>\<open>hashlib.sha256(data).digest()\<close>, as
  specified in FIPS 180-4, on the bytes of a string; it is the digest the parameter
  \<^verbatim>\<open>sha256\<close> of the library record stands for.
\<close>

definition sha256_K :: "32 word list" where
  "sha256_K =
   [0x428a2f98, 0x71374491, 0xb5c0fbcf, 0xe9b5dba5, 0x3956c25b, 0x59f111f1, 0x923f82a4, 0xab1c5ed5,
    0xd807aa98, 0x12835b01, 0x243185be, 0x550c7dc3, 0x72be5d74, 0x80deb1fe, 0x9bdc06a7, 0xc19bf174,
    0xe49b69c1, 0xefbe4786, 0x0fc19dc6, 0x240ca1cc, 0x2de92c6f, 0x4a7484aa, 0x5cb0a9dc, 0x76f988da,
    0x983e5152, 0xa831c66d, 0xb00327c8, 0xbf597fc7, 0xc6e00bf3, 0xd5a79147, 0x06ca6351, 0x14292967,
    0x27b70a85, 0x2e1b2138, 0x4d2c6dfc, 0x53380d13, 0x650a7354, 0x766a0abb, 0x81c2c92e, 0x92722c85,
    0xa2bfe8a1, 0xa81a664b, 0xc24b8b70, 0xc76c51a3, 0xd192e819, 0xd6990624, 0xf40e3585, 0x106aa070,
    0x19a4c116, 0x1e376c08, 0x2748774c, 0x34b0bcb5, 0x391c0cb3, 0x4ed8aa4a, 0x5b9cca4f, 0x682e6ff3,
    0x748f82ee, 0x78a5636f, 0x84c87814, 0x8cc70208, 0x90befffa, 0xa4506ceb, 0xbef9a3f7, 0xc67178f2]"

definition sha256_H0 :: "32 word list" where
  "sha256_H0 = [0x6a09e667, 0xbb67ae85, 0x3c6ef372, 0xa54ff53a,
                0x510e527f, 0x9b05688c, 0x1f83d9ab, 0x5be0cd19]"

text \<open>Rotation to the right, and the six functions of the standard.\<close>

definition rotr :: "nat \<Rightarrow> 32 word \<Rightarrow> 32 word" where
  "rotr n x = drop_bit n x OR push_bit (32 - n) x"

definition big_sigma0 :: "32 word \<Rightarrow> 32 word" where
  "big_sigma0 x = rotr 2 x XOR rotr 13 x XOR rotr 22 x"
definition big_sigma1 :: "32 word \<Rightarrow> 32 word" where
  "big_sigma1 x = rotr 6 x XOR rotr 11 x XOR rotr 25 x"
definition small_sigma0 :: "32 word \<Rightarrow> 32 word" where
  "small_sigma0 x = rotr 7 x XOR rotr 18 x XOR drop_bit 3 x"
definition small_sigma1 :: "32 word \<Rightarrow> 32 word" where
  "small_sigma1 x = rotr 17 x XOR rotr 19 x XOR drop_bit 10 x"

text \<open>
  The message schedule of one block, the most recent word first: 48 words are added to
  the 16 words of the block.
\<close>

fun schedule :: "nat \<Rightarrow> 32 word list \<Rightarrow> 32 word list" where
  "schedule 0 ws = ws"
| "schedule (Suc n) ws =
     schedule n ((small_sigma1 (ws ! 1) + ws ! 6 + small_sigma0 (ws ! 14) + ws ! 15) # ws)"

text \<open>The 64 rounds on the eight working variables, and the compression of one block.\<close>

fun rounds :: "32 word list \<Rightarrow> 32 word list \<Rightarrow> 32 word list \<Rightarrow> 32 word list" where
  "rounds [a, b, c, d, e, f, g, h] (k # ks) (w # ws) =
     (let t1 = h + big_sigma1 e + ((e AND f) XOR (NOT e AND g)) + k + w;
          t2 = big_sigma0 a + ((a AND b) XOR (a AND c) XOR (b AND c))
      in rounds [t1 + t2, a, b, c, d + t1, e, f, g] ks ws)"
| "rounds st ks ws = st"

definition compress :: "32 word list \<Rightarrow> 32 word list \<Rightarrow> 32 word list" where
  "compress st block = map2 (+) st (rounds st sha256_K (rev (schedule 48 (rev block))))"

text \<open>
  Big-endian words of the padded message: the byte \<^verbatim>\<open>0x80\<close>, zero bytes up to 56 modulo
  64, and the length in bits as 64 bits.
\<close>

fun be_words :: "8 word list \<Rightarrow> 32 word list" where
  "be_words (a # b # c # d # rest) =
     (push_bit 24 (ucast a) OR push_bit 16 (ucast b) OR push_bit 8 (ucast c) OR ucast d)
       # be_words rest"
| "be_words rest = []"

definition pad :: "8 word list \<Rightarrow> 8 word list" where
  "pad m =
    (let l = length m; k = (119 - l mod 64) mod 64; bits = (word_of_nat (8 * l) :: 64 word)
     in m @ [0x80] @ replicate k 0
          @ map (\<lambda>i. ucast (drop_bit (8 * i) bits)) (rev [0..<8]))"

fun blocks :: "nat \<Rightarrow> 32 word list \<Rightarrow> 32 word list list" where
  "blocks 0 ws = []"
| "blocks (Suc n) ws = take 16 ws # blocks n (drop 16 ws)"

definition sha256_words :: "8 word list \<Rightarrow> 32 word list" where
  "sha256_words m =
    (let ws = be_words (pad m) in foldl compress sha256_H0 (blocks (length ws div 16) ws))"

text \<open>The digest as one number of 256 bits, the first word the most significant.\<close>

definition hashlib_sha256 :: "string \<Rightarrow> 256 word" where
  "hashlib_sha256 s =
    foldl (\<lambda>acc w. push_bit 32 acc OR ucast w) 0 (sha256_words (map of_char s))"

text \<open>The library with this digest (and the base64 functions of the examples).\<close>

definition hashlib :: pylib where
  "hashlib = demo_lib\<lparr> sha256 := hashlib_sha256 \<rparr>"


section \<open>Properties of the summary\<close>

lemma foldl_plus_acc: "foldl (+) (a::nat) xs = a + sum_list xs"
  by (induction xs arbitrary: a) simp_all

lemma py_sum_sum_list: "py_sum xs = sum_list xs"
  by (simp add: py_sum_def foldl_plus_acc)

text \<open>
  Claim C8. For every game, the summary counts are the lengths of the collections,
  \<^verbatim>\<open>total_waves\<close> is the sum over the stages of their numbers of waves (the number of
  waves of the whole game), \<^verbatim>\<open>total_boss_phases\<close> is the sum over the stages of the
  numbers of phases of their bosses, and \<^verbatim>\<open>pattern_count\<close> is the length of
  \<^verbatim>\<open>bullet_patterns\<close> when present and 0 when absent.
\<close>

theorem summary_counts:
  "total_waves (get_validation_summary g) = (\<Sum>s\<leftarrow>stages g. length (waves s))
   \<and> total_waves (get_validation_summary g) = length (concat (map waves (stages g)))
   \<and> total_boss_phases (get_validation_summary g) = (\<Sum>s\<leftarrow>stages g. length (phases (boss s)))
   \<and> stage_count (get_validation_summary g) = length (stages g)
   \<and> enemy_count (get_validation_summary g) = length (enemies g)
   \<and> weapon_count (get_validation_summary g) = length (weapons g)
   \<and> pickup_count (get_validation_summary g) = length (pickups g)
   \<and> pattern_count (get_validation_summary g) =
        (case bullet_patterns g of None \<Rightarrow> 0 | Some ps \<Rightarrow> length ps)"
  by (simp add: get_validation_summary_def py_sum_sum_list length_concat comp_def
      split: option.splits)

section \<open>Properties of the Python helpers\<close>

lemma startswith_iff: "startswith s p \<longleftrightarrow> (\<exists>b. s = p @ b)"
  by (induction s p rule: startswith.induct) auto

lemma py_in_iff: "py_in p s \<longleftrightarrow> (\<exists>a b. s = a @ p @ b)"
proof (induction s)
  case Nil
  then show ?case by auto
next
  case (Cons c cs)
  show ?case
  proof
    assume "py_in p (c # cs)"
    then consider "startswith (c # cs) p" | "py_in p cs" by auto
    then show "\<exists>a b. c # cs = a @ p @ b"
    proof cases
      case 1
      then obtain b where "c # cs = p @ b" using startswith_iff by blast
      then have "c # cs = [] @ p @ b" by simp
      then show ?thesis by blast
    next
      case 2
      then obtain a b where "cs = a @ p @ b" using Cons.IH by blast
      then have "c # cs = (c # a) @ p @ b" by simp
      then show ?thesis by blast
    qed
  next
    assume "\<exists>a b. c # cs = a @ p @ b"
    then obtain a b where ab: "c # cs = a @ p @ b" by blast
    show "py_in p (c # cs)"
    proof (cases a)
      case Nil
      then have "startswith (c # cs) p" using ab startswith_iff by auto
      then show ?thesis by simp
    next
      case (Cons a0 as)
      then have "cs = as @ p @ b" using ab by simp
      then have "py_in p cs" using Cons.IH by blast
      then show ?thesis by simp
    qed
  qed
qed

lemma py_in_suffix: "py_in p (a @ p)"
proof -
  have "a @ p = a @ p @ []" by simp
  then show ?thesis unfolding py_in_iff by blast
qed


section \<open>Properties of the digest\<close>

lemma length_hexdigest: "length (hexdigest w) = 64"
  by (simp add: hexdigest_def hex_of_word_def)

lemma hexdigest_nonempty: "hexdigest w \<noteq> []"
  using length_hexdigest [of w] by auto

lemma get_cache_key_truthy: "truthy (Some (get_cache_key lib prompt img_size model))"
  by (simp add: get_cache_key_def hexdigest_nonempty)

lemma get_llm_cache_key_truthy: "truthy (Some (get_llm_cache_key lib user_prompt d))"
  by (simp add: get_llm_cache_key_def hexdigest_nonempty)

lemma hex_digit_inj:
  assumes "a < 16" and "b < 16" and "hex_digit a = hex_digit b"
  shows "a = b"
proof -
  have d: "distinct ''0123456789abcdef''" by simp
  have l: "length ''0123456789abcdef'' = 16" by simp
  from assms show ?thesis
    unfolding hex_digit_def using nth_eq_iff_index_eq [OF d, of a b] l by simp
qed

lemma nibble_less: "unat (w AND (15 :: 'a::len word)) < 16"
proof -
  have "w AND 15 = take_bit 4 w" by (simp add: take_bit_eq_mask mask_eq_exp_minus_1)
  then have "unat (w AND 15) = take_bit 4 (unat w)" by (simp add: unsigned_take_bit_eq)
  moreover have "take_bit 4 (unat w) < 2 ^ 4" by (rule take_bit_nat_less_exp)
  ultimately show ?thesis by simp
qed

lemma hex_of_word_nibbles:
  assumes "hex_of_word n w = hex_of_word n w'" and "i < n"
  shows "drop_bit (4 * i) w AND 15 = drop_bit (4 * i) w' AND (15 :: 'a::len word)"
proof -
  have "map (\<lambda>i. hex_digit (unat (drop_bit (4 * i) w AND 15))) [0..<n]
      = map (\<lambda>i. hex_digit (unat (drop_bit (4 * i) w' AND 15))) [0..<n]"
    using assms(1) by (simp add: hex_of_word_def rev_map [symmetric])
  then have "hex_digit (unat (drop_bit (4 * i) w AND 15))
           = hex_digit (unat (drop_bit (4 * i) w' AND 15))"
    using assms(2) by (auto simp add: map_eq_conv)
  then have "unat (drop_bit (4 * i) w AND 15) = unat (drop_bit (4 * i) w' AND 15)"
    using hex_digit_inj nibble_less by blast
  then show ?thesis by (rule word_unat_eq_iff [THEN iffD2])
qed

lemma bit_fifteen: "bit (15 :: 'a::len word) k \<longleftrightarrow> k < 4 \<and> k < LENGTH('a)"
proof -
  have e: "(15 :: 'a word) = mask 4" by (simp add: mask_eq_exp_minus_1)
  show ?thesis unfolding e by (simp only: bit_mask_iff possible_bit_word) auto
qed

lemma hex_of_word_inj:
  fixes w w' :: "'a::len word"
  assumes "hex_of_word n w = hex_of_word n w'" and "LENGTH('a) \<le> 4 * n"
  shows "w = w'"
proof (rule bit_word_eqI)
  fix k assume k: "k < LENGTH('a)"
  then have i: "k div 4 < n" using assms(2) by linarith
  have e: "drop_bit (4 * (k div 4)) w AND 15 = drop_bit (4 * (k div 4)) w' AND 15"
    using hex_of_word_nibbles [OF assms(1) i] .
  have pos: "4 * (k div 4) + k mod 4 = k" by simp
  have "k mod 4 < 4" and "k mod 4 < LENGTH('a)" using k by (simp, linarith)
  then have b15: "bit (15 :: 'a word) (k mod 4)" unfolding bit_fifteen by simp
  have "bit (drop_bit (4 * (k div 4)) w AND 15) (k mod 4) \<longleftrightarrow> bit w k" for w :: "'a word"
    using k pos b15 by (simp add: bit_and_iff bit_drop_bit_eq add.commute)
  then show "bit w k \<longleftrightarrow> bit w' k" using e by metis
qed

lemma hexdigest_inj: "hexdigest w = hexdigest w' \<Longrightarrow> w = w'"
  using hex_of_word_inj [of 64 w w'] by (simp add: hexdigest_def)



section \<open>Properties of the text generation service\<close>

lemma completions_append: "completions (xs @ ys) = completions xs @ completions ys"
  by (induction xs rule: completions.induct) simp_all

lemma sleeps_append: "sleeps (xs @ ys) = sleeps xs @ sleeps ys"
  by (induction xs rule: sleeps.induct) simp_all

lemma failing_trace_step:
  "k < n \<Longrightarrow> failing_trace k n =
     Completion k # (if k + 1 < n then [Sleep (2 ^ k)] else []) @ failing_trace (Suc k) n"
  by (simp add: failing_trace_def upt_conv_Cons)

lemma completions_failing_trace: "completions (failing_trace k n) = [k..<n]"
proof (induction "n - k" arbitrary: k)
  case 0
  then show ?case by (simp add: failing_trace_def)
next
  case (Suc m)
  then have kn: "k < n" and "m = n - Suc k" by auto
  then have IH: "completions (failing_trace (Suc k) n) = [Suc k..<n]"
    using Suc.hyps(1) [of "Suc k"] by simp
  have up: "[k..<n] = k # [Suc k..<n]" using kn by (rule upt_conv_Cons)
  show ?case
    unfolding failing_trace_step [OF kn] up by (simp add: IH)
qed

lemma sleeps_failing_trace: "sleeps (failing_trace k n) = map (\<lambda>a. 2 ^ a) [k..<n - 1]"
proof (induction "n - k" arbitrary: k)
  case 0
  then show ?case by (simp add: failing_trace_def)
next
  case (Suc m)
  then have kn: "k < n" and "m = n - Suc k" by auto
  then have IH: "sleeps (failing_trace (Suc k) n) = map (\<lambda>a. 2 ^ a) [Suc k..<n - 1]"
    using Suc.hyps(1) [of "Suc k"] by simp
  show ?case
  proof (cases "k + 1 < n")
    case True
    then have "k < n - 1" by simp
    then have up: "[k..<n - 1] = k # [Suc k..<n - 1]" by (rule upt_conv_Cons)
    show ?thesis unfolding failing_trace_step [OF kn] up using True by (simp add: IH)
  next
    case False
    then have up: "[k..<n - 1] = []" and up': "[Suc k..<n - 1] = []" using kn by auto
    show ?thesis unfolding failing_trace_step [OF kn] up using False by (simp add: IH up')
  qed
qed

lemma is_failure_detail: "is_failure out \<Longrightarrow> \<exists>m. error_detail out = Some m"
  by (cases out) simp_all

lemma retry_loop_all_fail:
  assumes fail: "\<And>a. is_failure (body a)"
  shows "k \<le> nat max_retries \<Longrightarrow>
    retry_loop body max_retries use_cache cache_key [k..<nat max_retries] st =
      ((False, None,
         if k < nat max_retries then error_detail (body (nat max_retries - 1))
         else Some ''Max retries exceeded''),
       st\<lparr>events := events st @ failing_trace k (nat max_retries)\<rparr>)"
proof (induction "nat max_retries - k" arbitrary: k st)
  case 0
  then have "k = nat max_retries" by simp
  then show ?case by (simp add: failing_trace_def)
next
  case (Suc m)
  then have kn: "k < nat max_retries" and m: "m = nat max_retries - Suc k" by auto
  have up: "[k..<nat max_retries] = k # [Suc k..<nat max_retries]"
    using kn by (simp add: upt_conv_Cons)
  show ?case
  proof (cases "int k < max_retries - 1")
    case True
    then have sk: "Suc k < nat max_retries" by linarith
    then have sk': "k + 1 < nat max_retries" by simp
    let ?st2 = "st\<lparr>events := events st @ [Completion k, Sleep (2 ^ k)]\<rparr>"
    have IH: "retry_loop body max_retries use_cache cache_key [Suc k..<nat max_retries] ?st2 =
              ((False, None, error_detail (body (nat max_retries - Suc 0))),
               st\<lparr>events := events st @ Completion k # Sleep (2 ^ k) #
                    failing_trace (Suc k) (nat max_retries)\<rparr>)"
      using Suc.hyps(1) [OF m, of ?st2] sk by simp
    show ?thesis
      using fail [of k] True kn sk'
      unfolding up failing_trace_step [OF kn]
      by (cases "body k") (simp_all add: IH emit_def)
  next
    case False
    then have last: "nat max_retries - Suc 0 = k" and nsk: "\<not> k + 1 < nat max_retries"
      using kn by linarith+
    have e: "failing_trace (Suc k) (nat max_retries) = []"
      using nsk by (simp add: failing_trace_def)
    show ?thesis
      unfolding up failing_trace_step [OF kn] e
      using fail [of k] False kn nsk
      by (cases "body k") (simp_all add: last emit_def)
  qed
qed

text \<open>
  Claim C4. When no cached document answers and every attempt fails (a JSON parse error
  or any other exception), \<^verbatim>\<open>generate_game_json\<close> returns a failure; the attempts made are
  exactly \<^verbatim>\<open>0, ..., max_retries - 1\<close>; after each attempt but the last it sleeps
  \<^verbatim>\<open>2 ** attempt\<close> seconds (1, 2, 4, ...); and for \<^verbatim>\<open>max_retries >= 1\<close> the failure carries
  the error text of the last attempt. The function is total: the recursion is on the
  list of the attempts still to make.
\<close>

theorem all_fail_retries:
  assumes "\<forall>a. is_failure (body a)"
    and "\<not> llm_cache_hit lib user_prompt use_cache st"
  shows "\<exists>msg new.
      generate_game_json lib body user_prompt difficulty max_retries use_cache st =
        ((False, None, Some msg), st\<lparr>events := events st @ new\<rparr>)
    \<and> new = failing_trace 0 (nat max_retries)
    \<and> completions new = [0..<nat max_retries]
    \<and> length (completions new) = nat max_retries
    \<and> sleeps new = map (\<lambda>attempt. 2 ^ attempt) [0..<nat max_retries - 1]
    \<and> (1 \<le> max_retries \<longrightarrow> Some msg = error_detail (body (nat max_retries - 1)))"
proof -
  let ?n = "nat max_retries"
  let ?ck = "if use_cache then Some (get_llm_cache_key lib user_prompt None) else None"
  have loop: "generate_game_json lib body user_prompt difficulty max_retries use_cache st =
      retry_loop body max_retries use_cache ?ck [0..<?n] st"
    using assms(2)
    by (auto simp add: generate_game_json_def llm_cache_hit_def Let_def py_range_def
        load_from_llm_cache_def split: option.splits)
  have r: "retry_loop body max_retries use_cache ?ck [0..<?n] st =
      ((False, None,
         if 0 < ?n then error_detail (body (?n - 1)) else Some ''Max retries exceeded''),
       st\<lparr>events := events st @ failing_trace 0 ?n\<rparr>)"
    using retry_loop_all_fail [of body 0 max_retries use_cache ?ck st] assms(1) by simp
  have "\<exists>m. error_detail (body (?n - 1)) = Some m"
    using assms(1) is_failure_detail by blast
  then obtain msg where msg: "(if 0 < ?n then error_detail (body (?n - 1))
                          else Some ''Max retries exceeded'') = Some msg"
    by (cases "0 < ?n") auto
  have last: "1 \<le> max_retries \<longrightarrow> Some msg = error_detail (body (?n - 1))"
    using msg by auto
  have res: "generate_game_json lib body user_prompt difficulty max_retries use_cache st =
      ((False, None, Some msg), st\<lparr>events := events st @ failing_trace 0 ?n\<rparr>)"
    unfolding loop r msg ..
  have c: "completions (failing_trace 0 ?n) = [0..<?n]"
    by (rule completions_failing_trace)
  have l: "length (completions (failing_trace 0 ?n)) = ?n"
    unfolding c by simp
  have sl: "sleeps (failing_trace 0 ?n) = map (\<lambda>attempt. 2 ^ attempt) [0..<?n - 1]"
    by (rule sleeps_failing_trace)
  from res c l sl last show ?thesis by blast
qed

theorem all_fail_retries_witness:
  "generate_game_json demo_lib always_bad_json ''a neon ocean'' ''normal'' 3 False
      \<lparr>events = [], llm_files = Map.empty\<rparr>
    = ((False, None, Some ''JSON parsing error: Expecting value: line 1 column 1 (char 0)''),
       \<lparr>events = [Completion 0, Sleep 1, Completion 1, Sleep 2, Completion 2],
        llm_files = Map.empty\<rparr>)"
proof -
  let ?st = "\<lparr>events = [], llm_files = Map.empty\<rparr>"
  have f: "\<forall>a. is_failure (always_bad_json a)" by (simp add: always_bad_json_def)
  have m: "\<not> llm_cache_hit demo_lib ''a neon ocean'' False ?st" by (simp add: llm_cache_hit_def)
  from all_fail_retries [OF f m, of "''normal''" 3]
  obtain msg new where
    r: "generate_game_json demo_lib always_bad_json ''a neon ocean'' ''normal'' 3 False ?st
          = ((False, None, Some msg), ?st\<lparr>events := events ?st @ new\<rparr>)"
    and n: "new = failing_trace 0 (nat 3)"
    and d: "1 \<le> (3::int) \<longrightarrow> Some msg = error_detail (always_bad_json (nat 3 - 1))"
    by blast
  have n': "new = [Completion 0, Sleep 1, Completion 1, Sleep 2, Completion 2]"
    unfolding n by (simp add: failing_trace_def upt_rec)
  have d': "msg = ''JSON parsing error: Expecting value: line 1 column 1 (char 0)''"
    using d by (simp add: always_bad_json_def)
  show ?thesis unfolding r n' d' by simp
qed

subsection \<open>Cache key\<close>

text \<open>
  Claim C5. The key of the text-generation cache is the hex digest of the string
  \<^verbatim>\<open>version:prompt\<close> with the version tag \<^verbatim>\<open>v4\<close>. It is a function of the tag and the prompt
  only: the difficulty argument has no effect. Two prompts have the same key exactly when
  they are the same prompt, and two tags give the same key for a prompt exactly when they
  are the same tag, on every pair of hashed strings on which SHA-256 does not collide.
\<close>

theorem cache_key_depends_on_tag_and_prompt:
  "get_llm_cache_key lib p d = get_llm_cache_key lib p d'
   \<and> (no_collision lib (llm_key_str PROMPT_VERSION p) (llm_key_str PROMPT_VERSION p') \<longrightarrow>
        (get_llm_cache_key lib p d = get_llm_cache_key lib p' d' \<longleftrightarrow> p = p'))
   \<and> (no_collision lib (llm_key_str v p) (llm_key_str v' p) \<longrightarrow>
        (hexdigest (sha256 lib (llm_key_str v p)) = hexdigest (sha256 lib (llm_key_str v' p))
           \<longleftrightarrow> v = v'))
   \<and> get_llm_cache_key lib p d = hexdigest (sha256 lib (llm_key_str PROMPT_VERSION p))
   \<and> llm_key_str v p = v @ '':'' @ p"
proof -
  have a: "get_llm_cache_key lib p d = get_llm_cache_key lib p d'"
    by (simp add: get_llm_cache_key_def)
  have b: "no_collision lib (llm_key_str PROMPT_VERSION p) (llm_key_str PROMPT_VERSION p') \<longrightarrow>
        (get_llm_cache_key lib p d = get_llm_cache_key lib p' d' \<longleftrightarrow> p = p')"
  proof
    assume n: "no_collision lib (llm_key_str PROMPT_VERSION p) (llm_key_str PROMPT_VERSION p')"
    show "get_llm_cache_key lib p d = get_llm_cache_key lib p' d' \<longleftrightarrow> p = p'"
    proof
      assume "get_llm_cache_key lib p d = get_llm_cache_key lib p' d'"
      then have "sha256 lib (llm_key_str PROMPT_VERSION p) = sha256 lib (llm_key_str PROMPT_VERSION p')"
        unfolding get_llm_cache_key_def by (rule hexdigest_inj)
      then have "llm_key_str PROMPT_VERSION p = llm_key_str PROMPT_VERSION p'"
        using n by (simp add: no_collision_def)
      then show "p = p'" by (simp add: llm_key_str_def)
    next
      assume "p = p'"
      then show "get_llm_cache_key lib p d = get_llm_cache_key lib p' d'"
        by (simp add: get_llm_cache_key_def)
    qed
  qed
  have c: "no_collision lib (llm_key_str v p) (llm_key_str v' p) \<longrightarrow>
        (hexdigest (sha256 lib (llm_key_str v p)) = hexdigest (sha256 lib (llm_key_str v' p))
           \<longleftrightarrow> v = v')"
  proof
    assume n: "no_collision lib (llm_key_str v p) (llm_key_str v' p)"
    show "hexdigest (sha256 lib (llm_key_str v p)) = hexdigest (sha256 lib (llm_key_str v' p))
           \<longleftrightarrow> v = v'"
    proof
      assume "hexdigest (sha256 lib (llm_key_str v p)) = hexdigest (sha256 lib (llm_key_str v' p))"
      then have "sha256 lib (llm_key_str v p) = sha256 lib (llm_key_str v' p)"
        by (rule hexdigest_inj)
      then have "llm_key_str v p = llm_key_str v' p"
        using n by (simp add: no_collision_def)
      then show "v = v'" by (simp add: llm_key_str_def)
    next
      assume "v = v'"
      then show "hexdigest (sha256 lib (llm_key_str v p))
                   = hexdigest (sha256 lib (llm_key_str v' p))" by simp
    qed
  qed
  have e: "get_llm_cache_key lib p d = hexdigest (sha256 lib (llm_key_str PROMPT_VERSION p))"
    by (simp add: get_llm_cache_key_def)
  have f: "llm_key_str v p = v @ '':'' @ p" by (simp add: llm_key_str_def)
  from a b c e f show ?thesis by blast
qed


lemma hashlib_ab:
  "hashlib_sha256 ''v4:ab'' = 0x904a6ac2da173d9eab91eb1df50ad3173226287e6979c5698ee1e2a4079ccf23"
  by code_simp

lemma hashlib_cd:
  "hashlib_sha256 ''v4:cd'' = 0x8fcdb322c5e42e2840a85b8b249b5ec230e03793a16e9eecb11c0c697afa684a"
  by code_simp

lemma hexdigest_ab:
  "hexdigest 0x904a6ac2da173d9eab91eb1df50ad3173226287e6979c5698ee1e2a4079ccf23
     = ''904a6ac2da173d9eab91eb1df50ad3173226287e6979c5698ee1e2a4079ccf23''"
  by code_simp

lemma hexdigest_cd:
  "hexdigest 0x8fcdb322c5e42e2840a85b8b249b5ec230e03793a16e9eecb11c0c697afa684a
     = ''8fcdb322c5e42e2840a85b8b249b5ec230e03793a16e9eecb11c0c697afa684a''"
  by code_simp

theorem cache_key_depends_on_tag_and_prompt_witness:
  "get_llm_cache_key hashlib ''ab'' (Some ''easy'')
     = ''904a6ac2da173d9eab91eb1df50ad3173226287e6979c5698ee1e2a4079ccf23''
   \<and> get_llm_cache_key hashlib ''ab'' (Some ''hard'')
     = ''904a6ac2da173d9eab91eb1df50ad3173226287e6979c5698ee1e2a4079ccf23''
   \<and> get_llm_cache_key hashlib ''cd'' (Some ''easy'')
     = ''8fcdb322c5e42e2840a85b8b249b5ec230e03793a16e9eecb11c0c697afa684a''
   \<and> get_llm_cache_key hashlib ''ab'' (Some ''easy'')
     \<noteq> get_llm_cache_key hashlib ''cd'' (Some ''easy'')"
proof -
  have s: "sha256 hashlib = hashlib_sha256" by (simp add: hashlib_def)
  have ka: "llm_key_str PROMPT_VERSION ''ab'' = ''v4:ab''"
    and kc: "llm_key_str PROMPT_VERSION ''cd'' = ''v4:cd''"
    by (simp_all add: llm_key_str_def PROMPT_VERSION_def)
  have n: "no_collision hashlib (llm_key_str PROMPT_VERSION ''ab'')
             (llm_key_str PROMPT_VERSION ''cd'')"
    unfolding no_collision_def s ka kc hashlib_ab hashlib_cd by simp
  note t = cache_key_depends_on_tag_and_prompt
    [where lib = hashlib and p = "''ab''" and d = "Some ''easy''" and d' = "Some ''hard''"
       and p' = "''cd''"]
  note u = cache_key_depends_on_tag_and_prompt
    [where lib = hashlib and p = "''ab''" and d = "Some ''easy''" and d' = "Some ''easy''"
       and p' = "''cd''"]
  from t have same: "get_llm_cache_key hashlib ''ab'' (Some ''easy'')
                       = get_llm_cache_key hashlib ''ab'' (Some ''hard'')"
    by blast
  from u n have "get_llm_cache_key hashlib ''ab'' (Some ''easy'')
                   = get_llm_cache_key hashlib ''cd'' (Some ''easy'') \<longleftrightarrow> ''ab'' = ''cd''"
    by blast
  then have diff: "get_llm_cache_key hashlib ''ab'' (Some ''easy'')
                       \<noteq> get_llm_cache_key hashlib ''cd'' (Some ''easy'')"
    by simp
  from t have ea: "get_llm_cache_key hashlib ''ab'' (Some ''easy'')
      = hexdigest (sha256 hashlib (llm_key_str PROMPT_VERSION ''ab''))"
    by blast
  have a: "get_llm_cache_key hashlib ''ab'' (Some ''easy'')
     = ''904a6ac2da173d9eab91eb1df50ad3173226287e6979c5698ee1e2a4079ccf23''"
    unfolding ea s ka hashlib_ab by (rule hexdigest_ab)
  have c: "get_llm_cache_key hashlib ''cd'' (Some ''easy'')
     = ''8fcdb322c5e42e2840a85b8b249b5ec230e03793a16e9eecb11c0c697afa684a''"
    unfolding get_llm_cache_key_def s kc hashlib_cd by (rule hexdigest_cd)
  from a c same diff show ?thesis by simp
qed


section \<open>Properties of the image service\<close>

subsection \<open>Order of the cache tiers\<close>

text \<open>
  Claim C2, as stated, says that the in-memory tier is consulted before the files, so that
  a key held by both tiers is answered from memory. In \<^verbatim>\<open>generate_image\<close> the files are read
  first (``Check filesystem cache first''): with the payload \<^verbatim>\<open>M\<close> in memory and the bytes
  \<^verbatim>\<open>F\<close> in the file of the same key, the call returns the payload of the file and
  overwrites the entry in memory.
\<close>

theorem memory_tier_first_counterexample:
  "(let k = get_cache_key demo_lib ''ship'' ''64x64'' ''enemy'';
        st = \<lparr> IMAGE_CACHE = [k \<mapsto> ''M''], cache_files = [(''enemy'', k) \<mapsto> ''F''] \<rparr>;
        r = generate_image demo_lib (always_fails ''down'') (always_fails ''down'')
              ''ship'' ''64x64'' True ''enemy'' st
    in IMAGE_CACHE st k = Some ''M''
     \<and> fst r = (True, Some ''data:image/png;base64,F'', None)
     \<and> IMAGE_CACHE (snd r) k = Some ''data:image/png;base64,F'')"
  by (simp add: generate_image_def demo_lib_def load_image_from_cache_def
      png_prefix_def Let_def get_cache_key_truthy [simplified])

text \<open>
  Claim C2, amended. For every lookup with \<^verbatim>\<open>use_cache\<close> true, the files are consulted
  first: when the file of the key exists, the loaded payload is written into the
  in-memory tier and returned, whatever the memory holds; the in-memory tier answers only
  when the file does not exist, and then the state is unchanged.
\<close>

theorem filesystem_tier_first:
  assumes "k = get_cache_key lib prompt img_size image_type"
  shows "(load_image_from_cache lib k image_type st = Some payload \<longrightarrow>
            generate_image lib gemini openai prompt img_size True image_type st =
              ((True, Some payload, None), st\<lparr>IMAGE_CACHE := (IMAGE_CACHE st)(k \<mapsto> payload)\<rparr>))
       \<and> (load_image_from_cache lib k image_type st = None \<and> IMAGE_CACHE st k = Some payload \<longrightarrow>
            generate_image lib gemini openai prompt img_size True image_type st =
              ((True, Some payload, None), st))"
  using assms get_cache_key_truthy [of lib prompt img_size image_type]
  by (auto simp add: generate_image_def Let_def load_image_from_cache_def png_prefix_def
      split: option.splits)

theorem filesystem_tier_first_witness:
  "(let k = get_cache_key demo_lib ''ship'' ''64x64'' ''enemy'';
        fs = \<lparr> IMAGE_CACHE = [k \<mapsto> ''M''], cache_files = [(''enemy'', k) \<mapsto> ''F''] \<rparr>;
        mem = \<lparr> IMAGE_CACHE = [k \<mapsto> ''M''], cache_files = Map.empty \<rparr>
    in generate_image demo_lib (always_fails ''down'') (always_fails ''down'')
         ''ship'' ''64x64'' True ''enemy'' fs
        = ((True, Some ''data:image/png;base64,F'', None),
           fs\<lparr>IMAGE_CACHE := (IMAGE_CACHE fs)(k \<mapsto> ''data:image/png;base64,F'')\<rparr>)
     \<and> generate_image demo_lib (always_fails ''down'') (always_fails ''down'')
         ''ship'' ''64x64'' True ''enemy'' mem
        = ((True, Some ''M'', None), mem))"
proof -
  define k where "k = get_cache_key demo_lib ''ship'' ''64x64'' ''enemy''"
  define fs where "fs = \<lparr> IMAGE_CACHE = [k \<mapsto> ''M''], cache_files = [(''enemy'', k) \<mapsto> ''F''] \<rparr>"
  define mem where "mem = \<lparr> IMAGE_CACHE = [k \<mapsto> ''M''], cache_files = Map.empty \<rparr>"
  have l1: "load_image_from_cache demo_lib k ''enemy'' fs = Some ''data:image/png;base64,F''"
    by (simp add: load_image_from_cache_def demo_lib_def png_prefix_def fs_def)
  have l2: "load_image_from_cache demo_lib k ''enemy'' mem = None
            \<and> IMAGE_CACHE mem k = Some ''M''"
    by (simp add: load_image_from_cache_def mem_def)
  from filesystem_tier_first [OF k_def, of fs "''data:image/png;base64,F''"
      "always_fails ''down''" "always_fails ''down''"] l1
  have a: "generate_image demo_lib (always_fails ''down'') (always_fails ''down'')
      ''ship'' ''64x64'' True ''enemy'' fs
    = ((True, Some ''data:image/png;base64,F'', None),
       fs\<lparr>IMAGE_CACHE := (IMAGE_CACHE fs)(k \<mapsto> ''data:image/png;base64,F'')\<rparr>)"
    by blast
  from filesystem_tier_first [OF k_def, of mem "''M''"
      "always_fails ''down''" "always_fails ''down''"] l2
  have b: "generate_image demo_lib (always_fails ''down'') (always_fails ''down'')
      ''ship'' ''64x64'' True ''enemy'' mem = ((True, Some ''M'', None), mem)"
    by blast
  from a b show ?thesis unfolding Let_def k_def [symmetric] fs_def [symmetric] mem_def [symmetric]
    by blast
qed

subsection \<open>Both providers fail\<close>

text \<open>
  Claim C3, as stated, says that the message of the failure holds the reasons of both
  providers. The variable \<^verbatim>\<open>error\<close> is assigned again by the call of the fallback, and the
  message is ``Last error:'' followed by it: with the reasons ``quota exhausted'' and
  ``timeout'', the reason of the primary provider does not occur in the message.
\<close>

theorem both_reasons_counterexample:
  "fst (generate_image demo_lib (always_fails ''quota exhausted'') (always_fails ''timeout'')
         ''ship'' ''1024x1024'' False ''enemy''
         \<lparr>IMAGE_CACHE = Map.empty, cache_files = Map.empty\<rparr>)
     = (False, None, Some ''Both Gemini and OpenAI failed. Last error: timeout'')
   \<and> \<not> py_in ''quota exhausted'' ''Both Gemini and OpenAI failed. Last error: timeout''"
  by (simp add: generate_image_def generate_uncached_def always_fails_def)

text \<open>
  Claim C3, amended. Whenever no cache tier answers, the primary provider fails (its
  triple is not a success with a non-empty image) and the fallback fails too,
  \<^verbatim>\<open>generate_image\<close> returns the failure whose message is the fixed text
  ``Both Gemini and OpenAI failed. Last error: '' followed by the reason of the fallback
  only: that reason is a substring of the message, the message is the same whatever the
  primary provider returned when it failed, and the caches are unchanged.
\<close>

theorem both_fail_last_error:
  assumes "\<not> cache_hit lib prompt img_size use_cache image_type st"
    and "gemini prompt img_size = (s1, i1, e1)" and "\<not> (s1 \<and> truthy i1)"
    and "openai prompt img_size = (s2, i2, e2)" and "\<not> (s2 \<and> truthy i2)"
  shows "\<exists>msg. generate_image lib gemini openai prompt img_size use_cache image_type st =
                 ((False, None, Some msg), st)
             \<and> msg = ''Both Gemini and OpenAI failed. Last error: '' @ py_str e2
             \<and> py_in (py_str e2) msg
             \<and> (\<forall>gemini' s1' i1' e1'.
                   gemini' prompt img_size = (s1', i1', e1') \<and> \<not> (s1' \<and> truthy i1') \<longrightarrow>
                   generate_image lib gemini' openai prompt img_size use_cache image_type st =
                     ((False, None, Some msg), st))"
proof -
  let ?msg = "''Both Gemini and OpenAI failed. Last error: '' @ py_str e2"
  have any: "generate_image lib g openai prompt img_size use_cache image_type st =
          ((False, None, Some ?msg), st)"
    if "g prompt img_size = (a, b, c)" and "\<not> (a \<and> truthy b)" for g a b c
    using that assms(1,4,5)
    by (auto simp add: generate_image_def generate_uncached_def cache_hit_def Let_def
        load_image_from_cache_def png_prefix_def split: option.splits)
  have "generate_image lib gemini openai prompt img_size use_cache image_type st =
          ((False, None, Some ?msg), st)"
    using any [of gemini s1 i1 e1] assms(2,3) by blast
  moreover have "py_in (py_str e2) ?msg"
    by (rule py_in_suffix)
  ultimately show ?thesis using any by blast
qed

theorem both_fail_last_error_witness:
  "generate_image demo_lib (always_fails ''quota exhausted'') (always_fails ''timeout'')
      ''ship'' ''1024x1024'' True ''enemy'' \<lparr>IMAGE_CACHE = Map.empty, cache_files = Map.empty\<rparr>
    = ((False, None, Some ''Both Gemini and OpenAI failed. Last error: timeout''),
       \<lparr>IMAGE_CACHE = Map.empty, cache_files = Map.empty\<rparr>)
   \<and> py_in ''timeout'' ''Both Gemini and OpenAI failed. Last error: timeout''
   \<and> generate_image demo_lib (always_fails ''safety block'') (always_fails ''timeout'')
      ''ship'' ''1024x1024'' True ''enemy'' \<lparr>IMAGE_CACHE = Map.empty, cache_files = Map.empty\<rparr>
    = ((False, None, Some ''Both Gemini and OpenAI failed. Last error: timeout''),
       \<lparr>IMAGE_CACHE = Map.empty, cache_files = Map.empty\<rparr>)"
proof -
  let ?st = "\<lparr>IMAGE_CACHE = Map.empty, cache_files = Map.empty\<rparr>"
  have miss: "\<not> cache_hit demo_lib ''ship'' ''1024x1024'' True ''enemy'' ?st"
    by (simp add: cache_hit_def)
  have g: "always_fails ''quota exhausted'' ''ship'' ''1024x1024''
             = (False, None, Some ''quota exhausted'')"
    by (simp add: always_fails_def)
  have g': "always_fails ''safety block'' ''ship'' ''1024x1024''
             = (False, None, Some ''safety block'')"
    by (simp add: always_fails_def)
  have o: "always_fails ''timeout'' ''ship'' ''1024x1024'' = (False, None, Some ''timeout'')"
    by (simp add: always_fails_def)
  have f: "\<not> (False \<and> truthy None)" by simp
  from both_fail_last_error [where gemini = "always_fails ''quota exhausted''"
      and openai = "always_fails ''timeout''", OF miss g f o f]
  obtain msg where
    r: "generate_image demo_lib (always_fails ''quota exhausted'') (always_fails ''timeout'')
          ''ship'' ''1024x1024'' True ''enemy'' ?st = ((False, None, Some msg), ?st)"
    and m: "msg = ''Both Gemini and OpenAI failed. Last error: '' @ py_str (Some ''timeout'')"
    and i: "py_in (py_str (Some ''timeout'')) msg"
    and a: "\<forall>gemini' s1' i1' e1'.
              gemini' ''ship'' ''1024x1024'' = (s1', i1', e1') \<and> \<not> (s1' \<and> truthy i1') \<longrightarrow>
              generate_image demo_lib gemini' (always_fails ''timeout'')
                ''ship'' ''1024x1024'' True ''enemy'' ?st = ((False, None, Some msg), ?st)"
    by blast
  from a g' f
  have r': "generate_image demo_lib (always_fails ''safety block'') (always_fails ''timeout'')
          ''ship'' ''1024x1024'' True ''enemy'' ?st = ((False, None, Some msg), ?st)"
    by blast
  from m have m': "msg = ''Both Gemini and OpenAI failed. Last error: timeout''" by simp
  from r r' i show ?thesis unfolding m' by simp
qed


section \<open>Properties of the background removal\<close>

subsection \<open>The median\<close>






subsection \<open>The border\<close>



subsection \<open>The alpha channel\<close>













subsection \<open>Failures\<close>

text \<open>
  Claim C7. \<^verbatim>\<open>remove_solid_background\<close> returns a string for every input; whenever a step
  of the \<^verbatim>\<open>try\<close> block fails (in particular when the input does not decode to an image),
  the result is the input, unchanged.
\<close>

theorem failure_returns_input:
  "(remove_solid_background_try il base64_image tolerance = Inl e \<longrightarrow>
      remove_solid_background il base64_image tolerance = base64_image)
   \<and> ((\<forall>d. decode_image il d = None) \<longrightarrow>
      remove_solid_background il base64_image tolerance = base64_image)"
  by (auto simp add: remove_solid_background_def remove_solid_background_try_def
      split: option.splits sum.splits)

theorem failure_returns_input_witness:
  "remove_solid_background_try demo_imglib ''not an image'' 35 = Inl DecodeFailed
   \<and> remove_solid_background demo_imglib ''not an image'' 35 = ''not an image''
   \<and> remove_solid_background demo_imglib ''data:no comma'' 35 = ''data:no comma''"
proof -
  have t: "remove_solid_background_try demo_imglib ''not an image'' 35 = Inl DecodeFailed"
    by (simp add: remove_solid_background_try_def demo_imglib_def)
  have t2: "remove_solid_background_try demo_imglib ''data:no comma'' 35 = Inl IndexError"
    by (simp add: remove_solid_background_try_def demo_imglib_def split_comma_1_def)
  from failure_returns_input [of demo_imglib "''not an image''" 35 DecodeFailed]
    failure_returns_input [of demo_imglib "''data:no comma''" 35 IndexError] t t2
  show ?thesis by blast
qed

subsection \<open>Opacity is only lowered\<close>




section \<open>Properties of the validation\<close>

lemmas error_defs =
  errors_GameData_def errors_stages_def errors_enemies_def errors_bullet_patterns_def
  errors_Story_def errors_Palette_def errors_Player_def errors_Stage_def errors_ParallaxLayer_def
  errors_Wave_def errors_Boss_def errors_BossPhase_def errors_Enemy_def errors_Weapon_def
  errors_Pickup_def required_def optional_def no_check_def check_str_def check_int_def
  check_float_def check_list_def check_hex_color_def hex_color_def under_def after_def
  value_error_def validate_formation_def validate_path_def validate_type_def
  validate_stages_def validate_enemies_def validate_patterns_def py_len_def
  utf8_continuation_def

subsection \<open>The uniqueness validators\<close>

lemma length_card_distinct: "length xs \<noteq> card (set xs) \<longleftrightarrow> \<not> distinct xs"
  using distinct_card [of xs] card_distinct [of xs] by auto

lemma validate_stages_iff:
  "validate_stages v = (if distinct (map stage_id v) then Returns
                        else ValueError ''Stage IDs must be unique'')"
  by (simp add: validate_stages_def Let_def length_card_distinct)

lemma validate_enemies_iff:
  "validate_enemies v = (if distinct (map enemy_id v) then Returns
                         else ValueError ''Enemy IDs must be unique'')"
  by (simp add: validate_enemies_def Let_def length_card_distinct)

lemma validate_patterns_iff:
  "validate_patterns (Some v) = (if distinct (map pattern_id v) then Returns
                                 else ValueError ''Bullet pattern IDs must be unique'')"
  by (simp add: validate_patterns_def Let_def length_card_distinct)

subsection \<open>The message\<close>

lemma join_member: "x \<in> set xs \<Longrightarrow> \<exists>a b. join sep xs = a @ x @ b"
proof (induction sep xs rule: join.induct)
  case (1 sep)
  then show ?case by simp
next
  case (2 sep x')
  then have "join sep [x'] = [] @ x @ []" by simp
  then show ?case by blast
next
  case (3 sep x' y ys)
  show ?case
  proof (cases "x = x'")
    case True
    then have "join sep (x' # y # ys) = [] @ x @ (sep @ join sep (y # ys))" by simp
    then show ?thesis by blast
  next
    case False
    then have "x \<in> set (y # ys)" using 3 by simp
    then obtain a b where "join sep (y # ys) = a @ x @ b" using 3 by blast
    then have "join sep (x' # y # ys) = (x' @ sep @ a) @ x @ b" by simp
    then show ?thesis by blast
  qed
qed

lemma format_contains:
  assumes "(loc, msg) \<in> set es" and "py_in u msg"
  shows "py_in u (format_validation_error es)"
proof -
  obtain c d where m: "msg = c @ u @ d" using assms(2) py_in_iff by blast
  have "format_line (loc, msg) \<in> set (map format_line es)" using assms(1) by force
  then obtain a b where j: "join [CHR 0x0A] (map format_line es) = a @ format_line (loc, msg) @ b"
    using join_member by blast
  define pre where "pre = ''  '' @ bullet @ '' '' @ join '' -> '' (map str_loc loc) @ '': ''"
  have "format_line (loc, msg) = pre @ c @ u @ d"
    by (simp add: format_line_def pre_def m)
  then have "format_validation_error es =
      (''Validation failed:'' @ [CHR 0x0A] @ a @ pre @ c) @ u @ (d @ b)"
    by (simp add: format_validation_error_def j)
  then show ?thesis unfolding py_in_iff by blast
qed

lemma unique_in_messages:
  "py_in ''unique'' (''Value error, '' @ ''Stage IDs must be unique'')"
  "py_in ''unique'' (''Value error, '' @ ''Enemy IDs must be unique'')"
  "py_in ''unique'' (''Value error, '' @ ''Bullet pattern IDs must be unique'')"
  by simp_all

lemma rejected_with:
  assumes "raw_bullet_patterns d \<noteq> Null"
    and "(loc, msg) \<in> set (errors_GameData d)" and "py_in u msg"
  shows "\<exists>m. validate_game_data rnd d = Returned (False, None, Some m) \<and> py_in u m"
proof -
  from assms(2) have "errors_GameData d \<noteq> []" by auto
  then have "validate_game_data rnd d =
      Returned (False, None, Some (format_validation_error (errors_GameData d)))"
    using assms(1) by (simp add: validate_game_data_def GameData_init_def)
  then show ?thesis using format_contains [OF assms(2,3)] by blast
qed

subsection \<open>Duplicate identifiers\<close>

lemma stages_duplicate_error:
  assumes "raw_stages d = Some ss" and "check_list 1 (Some 10) errors_Stage ss = []"
    and "\<not> distinct (map stage_id (map build_Stage ss))"
  shows "([Key ''stages''], ''Value error, '' @ ''Stage IDs must be unique'')
           \<in> set (errors_GameData d)"
  using assms
  by (simp add: errors_GameData_def errors_stages_def required_def under_def Let_def
      validate_stages_iff value_error_def)

lemma enemies_duplicate_error:
  assumes "raw_enemies d = Some es" and "check_list 1 (Some 50) errors_Enemy es = []"
    and "\<not> distinct (map enemy_id (map build_Enemy es))"
  shows "([Key ''enemies''], ''Value error, '' @ ''Enemy IDs must be unique'')
           \<in> set (errors_GameData d)"
  using assms
  by (simp add: errors_GameData_def errors_enemies_def required_def under_def Let_def
      validate_enemies_iff value_error_def)

lemma patterns_duplicate_error:
  assumes "raw_bullet_patterns d = Given ps" and "check_list 0 None errors_BulletPattern ps = []"
    and "\<not> distinct (map pattern_id (map build_BulletPattern ps))"
  shows "([Key ''bullet_patterns''], ''Value error, '' @ ''Bullet pattern IDs must be unique'')
           \<in> set (errors_GameData d)"
  using assms
  by (simp add: errors_GameData_def errors_bullet_patterns_def under_def Let_def
      validate_patterns_iff value_error_def)

lemma accepted_ids_distinct:
  assumes "validate_game_data rnd d = Returned (True, Some g, None)"
  shows "distinct (map stage_id (stages g)) \<and> distinct (map enemy_id (enemies g))
       \<and> (case bullet_patterns g of None \<Rightarrow> True | Some ps \<Rightarrow> distinct (map pattern_id ps))"
proof -
  from assms have nn: "raw_bullet_patterns d \<noteq> Null"
    and e: "errors_GameData d = []" and g: "g = build_GameData rnd d"
    by (auto simp add: validate_game_data_def GameData_init_def validate_patterns_def
        split: if_splits)
  from e have es: "errors_stages d = []" and ee: "errors_enemies d = []"
    and ep: "errors_bullet_patterns d = []"
    by (simp_all add: errors_GameData_def)
  have s: "distinct (map stage_id (stages g))"
    using es
    by (auto simp add: errors_stages_def Let_def g build_GameData_def validate_stages_iff
        value_error_def under_def split: if_splits)
  have n: "distinct (map enemy_id (enemies g))"
    using ee
    by (auto simp add: errors_enemies_def Let_def g build_GameData_def validate_enemies_iff
        value_error_def under_def split: if_splits)
  have p: "case bullet_patterns g of None \<Rightarrow> True | Some ps \<Rightarrow> distinct (map pattern_id ps)"
    using ep nn
    by (cases "raw_bullet_patterns d")
      (auto simp add: errors_bullet_patterns_def Let_def g build_GameData_def
        validate_patterns_iff value_error_def under_def split: if_splits)
  from s n p show ?thesis by blast
qed


lemma distinct_no_unique_error:
  "distinct (map stage_id (map build_Stage ss)) \<Longrightarrow> raw_stages d = Some ss \<Longrightarrow>
     errors_stages d = required ''stages'' (Some ss) (check_list 1 (Some 10) errors_Stage)"
  "distinct (map enemy_id (map build_Enemy es)) \<Longrightarrow> raw_enemies d = Some es \<Longrightarrow>
     errors_enemies d = required ''enemies'' (Some es) (check_list 1 (Some 50) errors_Enemy)"
  "distinct (map pattern_id (map build_BulletPattern ps)) \<Longrightarrow> raw_bullet_patterns d = Given ps \<Longrightarrow>
     errors_bullet_patterns d =
       under (Key ''bullet_patterns'') (check_list 0 None errors_BulletPattern ps)"
  by (simp_all add: errors_stages_def errors_enemies_def errors_bullet_patterns_def Let_def
      validate_stages_iff validate_enemies_iff validate_patterns_iff value_error_def under_def)

text \<open>
  Claim C1, as stated, says that every document in which two stages share an identifier
  is rejected with a message that contains ``unique''. The validator of the identifiers
  runs only when the list itself has no error: a document whose second stage repeats the
  identifier of the first and is too short is rejected with the error of the length
  only.
\<close>

theorem duplicate_with_field_error_counterexample:
  "map raw_stage_id (the (raw_stages short_duplicate_doc)) = [Some ''mod-init'', Some ''mod-init'']
   \<and> validate_game_data 0 short_duplicate_doc =
       Returned (False, None,
         Some (''Validation failed:'' @ [CHR 0x0A] @ ''  '' @ bullet
               @ '' stages -> 1 -> length_sec: Input should be greater than or equal to 60''))
   \<and> \<not> py_in ''unique''
         (''Validation failed:'' @ [CHR 0x0A] @ ''  '' @ bullet
           @ '' stages -> 1 -> length_sec: Input should be greater than or equal to 60'')"
proof -
  have e: "errors_GameData short_duplicate_doc =
      [([Key ''stages'', Index 1, Key ''length_sec''],
        ''Input should be greater than or equal to 60'')]"
    by (simp add: error_defs short_duplicate_doc_def demo_doc_def demo_stage_def demo_enemy_def
        build_Stage_def build_Enemy_def Let_def str_nat.simps hex_digit_def)
  have nn: "raw_bullet_patterns short_duplicate_doc = Absent"
    by (simp add: short_duplicate_doc_def demo_doc_def)
  have v: "validate_game_data 0 short_duplicate_doc =
       Returned (False, None,
         Some (''Validation failed:'' @ [CHR 0x0A] @ ''  '' @ bullet
               @ '' stages -> 1 -> length_sec: Input should be greater than or equal to 60''))"
    by (simp add: validate_game_data_def GameData_init_def e nn format_validation_error_def
        format_line_def str_nat.simps hex_digit_def)
  have i: "map raw_stage_id (the (raw_stages short_duplicate_doc))
             = [Some ''mod-init'', Some ''mod-init'']"
    by (simp add: short_duplicate_doc_def demo_doc_def demo_stage_def)
  have n: "\<not> py_in ''unique''
         (''Validation failed:'' @ [CHR 0x0A] @ ''  '' @ bullet
           @ '' stages -> 1 -> length_sec: Input should be greater than or equal to 60'')"
    by (simp add: bullet_def)
  from i v n show ?thesis by blast
qed

text \<open>
  Claim C1, amended. A document is never accepted with two stages, two enemies or two
  bullet patterns that share an identifier: the identifiers of every accepted game are
  distinct in each of the three collections. When the collection that holds the
  duplicate has no error of its own (and \<^verbatim>\<open>bullet_patterns\<close> is a list or absent), the
  validation returns a failure whose message contains ``unique''. When the identifiers
  of a collection are distinct, its uniqueness validator returns normally and adds no
  error.
\<close>

theorem duplicate_ids_rejected:
  "(validate_game_data rnd d = Returned (True, Some g, None) \<longrightarrow>
      distinct (map stage_id (stages g)) \<and> distinct (map enemy_id (enemies g))
      \<and> (case bullet_patterns g of None \<Rightarrow> True | Some ps \<Rightarrow> distinct (map pattern_id ps)))
   \<and> (raw_bullet_patterns d \<noteq> Null \<and> raw_stages d = Some ss
        \<and> check_list 1 (Some 10) errors_Stage ss = []
        \<and> \<not> distinct (map stage_id (map build_Stage ss)) \<longrightarrow>
      (\<exists>m. validate_game_data rnd d = Returned (False, None, Some m) \<and> py_in ''unique'' m))
   \<and> (raw_bullet_patterns d \<noteq> Null \<and> raw_enemies d = Some es
        \<and> check_list 1 (Some 50) errors_Enemy es = []
        \<and> \<not> distinct (map enemy_id (map build_Enemy es)) \<longrightarrow>
      (\<exists>m. validate_game_data rnd d = Returned (False, None, Some m) \<and> py_in ''unique'' m))
   \<and> (raw_bullet_patterns d = Given ps
        \<and> check_list 0 None errors_BulletPattern ps = []
        \<and> \<not> distinct (map pattern_id (map build_BulletPattern ps)) \<longrightarrow>
      (\<exists>m. validate_game_data rnd d = Returned (False, None, Some m) \<and> py_in ''unique'' m))
   \<and> (validate_stages sv = Returns \<longleftrightarrow> distinct (map stage_id sv))
   \<and> (validate_enemies ev = Returns \<longleftrightarrow> distinct (map enemy_id ev))
   \<and> (validate_patterns (Some pv) = Returns \<longleftrightarrow> distinct (map pattern_id pv))
   \<and> (raw_stages d = Some ss \<and> distinct (map stage_id (map build_Stage ss)) \<longrightarrow>
        errors_stages d = required ''stages'' (Some ss) (check_list 1 (Some 10) errors_Stage))
   \<and> (raw_enemies d = Some es \<and> distinct (map enemy_id (map build_Enemy es)) \<longrightarrow>
        errors_enemies d = required ''enemies'' (Some es) (check_list 1 (Some 50) errors_Enemy))
   \<and> (raw_bullet_patterns d = Given ps
        \<and> distinct (map pattern_id (map build_BulletPattern ps)) \<longrightarrow>
        errors_bullet_patterns d =
          under (Key ''bullet_patterns'') (check_list 0 None errors_BulletPattern ps))"
proof -
  have a: "validate_game_data rnd d = Returned (True, Some g, None) \<longrightarrow>
      distinct (map stage_id (stages g)) \<and> distinct (map enemy_id (enemies g))
      \<and> (case bullet_patterns g of None \<Rightarrow> True | Some ps \<Rightarrow> distinct (map pattern_id ps))"
    using accepted_ids_distinct by blast
  have s: "raw_bullet_patterns d \<noteq> Null \<and> raw_stages d = Some ss
        \<and> check_list 1 (Some 10) errors_Stage ss = []
        \<and> \<not> distinct (map stage_id (map build_Stage ss)) \<longrightarrow>
      (\<exists>m. validate_game_data rnd d = Returned (False, None, Some m) \<and> py_in ''unique'' m)"
    using rejected_with [OF _ stages_duplicate_error unique_in_messages(1)] by blast
  have e: "raw_bullet_patterns d \<noteq> Null \<and> raw_enemies d = Some es
        \<and> check_list 1 (Some 50) errors_Enemy es = []
        \<and> \<not> distinct (map enemy_id (map build_Enemy es)) \<longrightarrow>
      (\<exists>m. validate_game_data rnd d = Returned (False, None, Some m) \<and> py_in ''unique'' m)"
    using rejected_with [OF _ enemies_duplicate_error unique_in_messages(2)] by blast
  have p: "raw_bullet_patterns d = Given ps
        \<and> check_list 0 None errors_BulletPattern ps = []
        \<and> \<not> distinct (map pattern_id (map build_BulletPattern ps)) \<longrightarrow>
      (\<exists>m. validate_game_data rnd d = Returned (False, None, Some m) \<and> py_in ''unique'' m)"
  proof (intro impI, elim conjE)
    assume g: "raw_bullet_patterns d = Given ps"
      and c: "check_list 0 None errors_BulletPattern ps = []"
      and n: "\<not> distinct (map pattern_id (map build_BulletPattern ps))"
    from g have nn: "raw_bullet_patterns d \<noteq> Null" by simp
    from rejected_with [OF nn patterns_duplicate_error [OF g c n] unique_in_messages(3)]
    show "\<exists>m. validate_game_data rnd d = Returned (False, None, Some m) \<and> py_in ''unique'' m" .
  qed
  have v: "(validate_stages sv = Returns \<longleftrightarrow> distinct (map stage_id sv))
      \<and> (validate_enemies ev = Returns \<longleftrightarrow> distinct (map enemy_id ev))
      \<and> (validate_patterns (Some pv) = Returns \<longleftrightarrow> distinct (map pattern_id pv))"
    by (simp add: validate_stages_iff validate_enemies_iff validate_patterns_iff)
  from a s e p v distinct_no_unique_error [of _ d] show ?thesis by blast
qed


lemma demo_doc_valid: "errors_GameData demo_doc = []"
  by (simp add: error_defs demo_doc_def demo_stage_def demo_enemy_def build_Stage_def
      build_Enemy_def Let_def)

lemma demo_doc_accepted:
  "validate_game_data rnd demo_doc = Returned (True, Some (build_GameData rnd demo_doc), None)"
proof -
  have "raw_bullet_patterns demo_doc = Absent" by (simp add: demo_doc_def)
  then show ?thesis
    by (simp add: validate_game_data_def GameData_init_def demo_doc_valid)
qed

theorem duplicate_ids_rejected_witness:
  "(\<exists>m. validate_game_data 0 duplicate_enemy_doc = Returned (False, None, Some m)
        \<and> py_in ''unique'' m)
   \<and> validate_game_data 0 demo_doc = Returned (True, Some (build_GameData 0 demo_doc), None)
   \<and> distinct (map stage_id (stages (build_GameData 0 demo_doc)))"
proof -
  have nn: "raw_bullet_patterns duplicate_enemy_doc \<noteq> Null"
    by (simp add: duplicate_enemy_doc_def demo_doc_def)
  have es: "raw_enemies duplicate_enemy_doc = Some [demo_enemy, demo_enemy]"
    by (simp add: duplicate_enemy_doc_def)
  have ok: "check_list 1 (Some 50) errors_Enemy [demo_enemy, demo_enemy] = []"
    by (simp add: error_defs demo_enemy_def)
  have dup: "\<not> distinct (map enemy_id (map build_Enemy [demo_enemy, demo_enemy]))"
    by simp
  note t = duplicate_ids_rejected [of 0 duplicate_enemy_doc _ _ "[demo_enemy, demo_enemy]"]
  from t nn es ok dup
  have a: "\<exists>m. validate_game_data 0 duplicate_enemy_doc = Returned (False, None, Some m)
        \<and> py_in ''unique'' m"
    by blast
  note u = duplicate_ids_rejected [of 0 demo_doc "build_GameData 0 demo_doc"]
  from u demo_doc_accepted [of 0]
  have b: "distinct (map stage_id (stages (build_GameData 0 demo_doc)))" by blast
  from a b demo_doc_accepted [of 0] show ?thesis by blast
qed

subsection \<open>The generated identifier\<close>













end
